theory Spec2Isabelle
  imports Main "HOL-Library.Multiset"
begin

section \<open>Data model\<close>

text \<open>
  The relational schema of the CRM (tables \<open>organizations\<close>, \<open>users\<close>, \<open>customers\<close>,
  \<open>contact_history\<close>, \<open>pipelines\<close>, \<open>deals\<close>, \<open>tasks\<close>). A table is the list of its rows in
  physical order; a statement without \<open>ORDER BY\<close> reads the rows in that order. Ids and
  free text are strings, instants are natural numbers, a nullable column is an option.
  The \<open>users\<close> and \<open>organizations\<close> records carry the columns the controllers read.
\<close>

type_synonym uuid = string
type_synonym timestamp = nat

datatype AppError = NotFoundError string | ValidationError string

datatype ContactType = CALL | EMAIL | MEETING | NOTE
datatype TaskPriority = LOW | MEDIUM | HIGH
datatype TaskStatus = PENDING | IN_PROGRESS | COMPLETE

record organization =
  o_id :: uuid
  o_name :: string

record user =
  u_id :: uuid
  u_email :: string
  u_firstName :: string
  u_lastName :: string
  u_organizationId :: uuid

record customer =
  c_id :: uuid
  c_firstName :: string
  c_lastName :: string
  c_email :: string
  c_phone :: string
  c_company :: "string option"
  c_tags :: "string list"
  c_customFields :: "string option"
  c_createdAt :: timestamp
  c_updatedAt :: timestamp
  c_deletedAt :: "timestamp option"
  c_createdBy :: uuid
  c_organizationId :: uuid

record contact =
  ch_id :: uuid
  ch_customerId :: uuid
  ch_type :: ContactType
  ch_subject :: "string option"
  ch_body :: string
  ch_duration :: "int option"
  ch_attachments :: "string list"
  ch_aiSummary :: "string option"
  ch_createdAt :: timestamp
  ch_createdBy :: uuid

record stage =
  stage_id :: string
  stage_name :: string
  stage_order :: int
  stage_probability :: int

record pipeline =
  p_id :: uuid
  p_name :: string
  p_stages :: "stage list"
  p_isDefault :: bool
  p_createdAt :: timestamp
  p_updatedAt :: timestamp
  p_createdBy :: uuid
  p_organizationId :: uuid

text \<open>\<open>d_value\<close> is the \<open>DECIMAL(15,2)\<close> amount in hundredths; \<open>d_products\<close> is the JSON text.\<close>

record deal =
  d_id :: uuid
  d_customerId :: uuid
  d_pipelineId :: uuid
  d_stageId :: string
  d_title :: string
  d_value :: int
  d_currency :: string
  d_expectedCloseDate :: "timestamp option"
  d_actualCloseDate :: "timestamp option"
  d_probability :: int
  d_notes :: "string option"
  d_products :: string
  d_createdAt :: timestamp
  d_updatedAt :: timestamp
  d_ownerId :: uuid

record task =
  t_id :: uuid
  t_title :: string
  t_description :: "string option"
  t_priority :: TaskPriority
  t_status :: TaskStatus
  t_dueDate :: "timestamp option"
  t_assigneeId :: uuid
  t_relatedCustomerId :: "uuid option"
  t_relatedDealId :: "uuid option"
  t_isRecurring :: bool
  t_recurrenceRule :: "string option"
  t_timeSpent :: "int option"
  t_completedAt :: "timestamp option"
  t_createdAt :: timestamp
  t_updatedAt :: timestamp

record db =
  organizations :: "organization list"
  users :: "user list"
  customers :: "customer list"
  contact_history :: "contact list"
  pipelines :: "pipeline list"
  deals :: "deal list"
  tasks :: "task list"

section \<open>Database and JavaScript helpers\<close>

text \<open>\<open>queryOne\<close>: the first row of the result, or null.\<close>

definition queryOne :: "'a list \<Rightarrow> 'a option" where
  "queryOne rows = (case rows of [] \<Rightarrow> None | r # _ \<Rightarrow> Some r)"

text \<open>
  A request-body field that may be absent is an option (\<open>None\<close> is \<open>undefined\<close>); a field
  that may also be \<open>null\<close> is an option of a nullable value.
\<close>

type_synonym 'a nullable = "'a option"

text \<open>\<open>s || null\<close> on a nullable string: the empty string is falsy.\<close>

definition str_or_null :: "string nullable \<Rightarrow> string option" where
  "str_or_null v = (case v of None \<Rightarrow> None | Some s \<Rightarrow> if s = [] then None else Some s)"

text \<open>\<open>n || null\<close> on a nullable number: zero is falsy.\<close>

definition num_or_null :: "int nullable \<Rightarrow> int option" where
  "num_or_null v = (case v of None \<Rightarrow> None | Some n \<Rightarrow> if n = 0 then None else Some n)"

text \<open>\<open>undefined\<close> and \<open>null\<close> are both falsy: \<open>v || null\<close> on a date or an id.\<close>

definition undef_or_null :: "'a nullable option \<Rightarrow> 'a option" where
  "undef_or_null v = (case v of None \<Rightarrow> None | Some w \<Rightarrow> w)"

text \<open>Truthiness of an optional string, and of an optional nullable string.\<close>

definition truthy :: "string option \<Rightarrow> bool" where
  "truthy v = (case v of None \<Rightarrow> False | Some s \<Rightarrow> s \<noteq> [])"

definition truthy_nullable :: "string nullable option \<Rightarrow> bool" where
  "truthy_nullable v = (case v of None \<Rightarrow> False | Some w \<Rightarrow> truthy w)"

text \<open>\<open>String.prototype.toLowerCase\<close> on ASCII text.\<close>

definition toLowerCase :: "string \<Rightarrow> string" where
  "toLowerCase s =
     map (\<lambda>c. let n = (of_char c :: nat) in if 65 \<le> n \<and> n \<le> 90 then char_of (n + 32) else c) s"

text \<open>
  The dynamically built \<open>SET\<close> clause: \<open>updates\<close> is the list of column assignments, one
  pushed for each field of the body that is not \<open>undefined\<close>; the statement applies them
  all to every row its \<open>WHERE\<close> selects and returns the new rows.
\<close>

definition push_if :: "'v option \<Rightarrow> ('v \<Rightarrow> 'r \<Rightarrow> 'r) \<Rightarrow> ('r \<Rightarrow> 'r) list" where
  "push_if field assign = (case field of None \<Rightarrow> [] | Some v \<Rightarrow> [assign v])"

definition sql_set :: "('r \<Rightarrow> 'r) list \<Rightarrow> 'r \<Rightarrow> 'r" where
  "sql_set updates row = fold (\<lambda>assign r. assign r) updates row"

definition sql_update :: "('r \<Rightarrow> bool) \<Rightarrow> ('r \<Rightarrow> 'r) list \<Rightarrow> 'r list \<Rightarrow> 'r list" where
  "sql_update wh updates rows = map (\<lambda>r. if wh r then sql_set updates r else r) rows"

definition sql_returning :: "('r \<Rightarrow> bool) \<Rightarrow> ('r \<Rightarrow> 'r) list \<Rightarrow> 'r list \<Rightarrow> 'r list" where
  "sql_returning wh updates rows = map (sql_set updates) (filter wh rows)"

text \<open>
  \<open>ORDER BY key DESC\<close> and \<open>ORDER BY key ASC\<close>. The statements order by one column and
  name no tie-breaker, so the order of rows with equal keys is not fixed by the statement:
  the database chooses it, and may choose anew for every request. \<open>tie\<close> is that choice
  for one request, a rank for each row; rows with equal keys come out by rank.
\<close>

definition order_by_desc :: "('r \<Rightarrow> nat) \<Rightarrow> ('r \<Rightarrow> nat) \<Rightarrow> 'r list \<Rightarrow> 'r list" where
  "order_by_desc tie key rows = rev (sort_key key (sort_key tie rows))"

definition order_by_asc :: "('r \<Rightarrow> nat) \<Rightarrow> ('r \<Rightarrow> nat) \<Rightarrow> 'r list \<Rightarrow> 'r list" where
  "order_by_asc tie key rows = sort_key key (sort_key tie rows)"

section \<open>Tenant resolver\<close>

text \<open>\<open>SELECT "organizationId" FROM users WHERE id = $1\<close>, first row or null.\<close>

definition userRow :: "db \<Rightarrow> uuid \<Rightarrow> uuid option" where
  "userRow st userId = queryOne [u_organizationId u. u \<leftarrow> users st, u_id u = userId]"

section \<open>Customer controller\<close>

record customer_body =
  cb_firstName :: "string option"
  cb_lastName :: "string option"
  cb_email :: "string option"
  cb_phone :: "string option"
  cb_company :: "string nullable option"
  cb_tags :: "string list option"
  cb_customFields :: "string nullable option"

definition customer_visible :: "uuid \<Rightarrow> uuid \<Rightarrow> customer \<Rightarrow> bool" where
  "customer_visible rid org c \<longleftrightarrow> c_id c = rid \<and> c_organizationId c = org \<and> c_deletedAt c = None"

definition customer_getAll ::
  "db \<Rightarrow> uuid \<Rightarrow> (customer \<Rightarrow> nat) \<Rightarrow> AppError + customer list" where
  "customer_getAll st userId tie =
     (case userRow st userId of
        None \<Rightarrow> Inl (NotFoundError ''User not found'')
      | Some org \<Rightarrow>
          Inr (order_by_desc tie c_createdAt
                 [c \<leftarrow> customers st. c_organizationId c = org \<and> c_deletedAt c = None]))"

definition customer_getById :: "db \<Rightarrow> uuid \<Rightarrow> uuid \<Rightarrow> AppError + customer" where
  "customer_getById st userId rid =
     (case userRow st userId of
        None \<Rightarrow> Inl (NotFoundError ''User not found'')
      | Some org \<Rightarrow>
          (case queryOne [c \<leftarrow> customers st. customer_visible rid org c] of
             None \<Rightarrow> Inl (NotFoundError ''Customer not found'')
           | Some customer \<Rightarrow> Inr customer))"

definition customer_updates :: "customer_body \<Rightarrow> (customer \<Rightarrow> customer) list" where
  "customer_updates body =
     push_if (cb_firstName body) (\<lambda>v c. c\<lparr>c_firstName := v\<rparr>) @
     push_if (cb_lastName body) (\<lambda>v c. c\<lparr>c_lastName := v\<rparr>) @
     push_if (cb_email body) (\<lambda>v c. c\<lparr>c_email := toLowerCase v\<rparr>) @
     push_if (cb_phone body) (\<lambda>v c. c\<lparr>c_phone := v\<rparr>) @
     push_if (cb_company body) (\<lambda>v c. c\<lparr>c_company := str_or_null v\<rparr>) @
     push_if (cb_tags body) (\<lambda>v c. c\<lparr>c_tags := v\<rparr>) @
     push_if (cb_customFields body) (\<lambda>v c. c\<lparr>c_customFields := v\<rparr>)"

definition customer_update ::
  "db \<Rightarrow> uuid \<Rightarrow> uuid \<Rightarrow> timestamp \<Rightarrow> customer_body \<Rightarrow> (AppError + customer option) \<times> db" where
  "customer_update st userId rid now body =
     (case userRow st userId of
        None \<Rightarrow> (Inl (NotFoundError ''User not found''), st)
      | Some org \<Rightarrow>
          (case queryOne [c \<leftarrow> customers st. customer_visible rid org c] of
             None \<Rightarrow> (Inl (NotFoundError ''Customer not found''), st)
           | Some existing \<Rightarrow>
               if (case cb_email body of
                     None \<Rightarrow> False
                   | Some email \<Rightarrow>
                       email \<noteq> [] \<and> toLowerCase email \<noteq> c_email existing
                       \<and> queryOne [c \<leftarrow> customers st.
                             c_email c = toLowerCase email \<and> c_organizationId c = org
                             \<and> c_id c \<noteq> rid \<and> c_deletedAt c = None] \<noteq> None)
               then (Inl (ValidationError ''Customer with this email already exists''), st)
               else
                 let updates = customer_updates body in
                 if updates = [] then (Inr (queryOne [c \<leftarrow> customers st. c_id c = rid]), st)
                 else
                   let updates' = updates @ [\<lambda>c. c\<lparr>c_updatedAt := now\<rparr>];
                       result = sql_returning (customer_visible rid org) updates' (customers st);
                       st' = st\<lparr>customers := sql_update (customer_visible rid org) updates' (customers st)\<rparr>
                   in (case result of
                         [] \<Rightarrow> (Inl (NotFoundError ''Customer not found''), st')
                       | r # _ \<Rightarrow> (Inr (Some r), st'))))"

definition customer_delete ::
  "db \<Rightarrow> uuid \<Rightarrow> uuid \<Rightarrow> timestamp \<Rightarrow> (AppError + string) \<times> db" where
  "customer_delete st userId rid now =
     (case userRow st userId of
        None \<Rightarrow> (Inl (NotFoundError ''User not found''), st)
      | Some org \<Rightarrow>
          let updates = [\<lambda>c. c\<lparr>c_deletedAt := Some now\<rparr>, \<lambda>c. c\<lparr>c_updatedAt := now\<rparr>];
              result = sql_returning (customer_visible rid org) updates (customers st);
              st' = st\<lparr>customers := sql_update (customer_visible rid org) updates (customers st)\<rparr>
          in if result = [] then (Inl (NotFoundError ''Customer not found''), st')
             else (Inr ''Customer deleted successfully'', st'))"

section \<open>Deal controller\<close>

record deal_relations =
  customerFirstName :: string
  customerLastName :: string
  customerEmail :: string
  ownerFirstName :: string
  ownerLastName :: string
  pipelineName :: string

type_synonym DealWithRelations = "deal \<times> deal_relations"

definition dealWithRelations :: "deal \<Rightarrow> customer \<Rightarrow> user \<Rightarrow> pipeline \<Rightarrow> DealWithRelations" where
  "dealWithRelations d c u p =
     (d, \<lparr>customerFirstName = c_firstName c, customerLastName = c_lastName c,
          customerEmail = c_email c, ownerFirstName = u_firstName u,
          ownerLastName = u_lastName u, pipelineName = p_name p\<rparr>)"

text \<open>
  \<open>FROM deals d INNER JOIN customers c ON d."customerId" = c.id
  INNER JOIN users u ON d."ownerId" = u.id INNER JOIN pipelines p ON d."pipelineId" = p.id\<close>
\<close>

definition deal_join :: "db \<Rightarrow> (deal \<times> customer \<times> user \<times> pipeline) list" where
  "deal_join st =
     [(d, c, u, p). d \<leftarrow> deals st, c \<leftarrow> customers st, d_customerId d = c_id c,
                    u \<leftarrow> users st, d_ownerId d = u_id u,
                    p \<leftarrow> pipelines st, d_pipelineId d = p_id p]"

text \<open>The response query of create and update: the join \<open>WHERE d.id = $1\<close>.\<close>

definition deal_fetch :: "db \<Rightarrow> uuid \<Rightarrow> DealWithRelations option" where
  "deal_fetch st rid =
     queryOne [dealWithRelations d c u p. (d, c, u, p) \<leftarrow> deal_join st, d_id d = rid]"

definition deal_getById :: "db \<Rightarrow> uuid \<Rightarrow> uuid \<Rightarrow> AppError + DealWithRelations" where
  "deal_getById st userId rid =
     (case userRow st userId of
        None \<Rightarrow> Inl (NotFoundError ''User not found'')
      | Some org \<Rightarrow>
          (case queryOne [dealWithRelations d c u p.
                            (d, c, u, p) \<leftarrow> deal_join st,
                            g \<leftarrow> organizations st, c_organizationId c = o_id g,
                            d_id d = rid \<and> o_id g = org \<and> c_deletedAt c = None] of
             None \<Rightarrow> Inl (NotFoundError ''Deal not found'')
           | Some deal \<Rightarrow> Inr deal))"

text \<open>\<open>stages.some((s) => s.id === stageId)\<close>\<close>

definition stageExists :: "stage list \<Rightarrow> string \<Rightarrow> bool" where
  "stageExists stages stageId = list_ex (\<lambda>s. stage_id s = stageId) stages"

record deal_create_body =
  dc_customerId :: uuid
  dc_pipelineId :: uuid
  dc_stageId :: string
  dc_title :: string
  dc_value :: int
  dc_currency :: "string option"
  dc_expectedCloseDate :: "timestamp nullable option"
  dc_probability :: "int option"
  dc_notes :: "string nullable option"
  dc_products :: "string option"

text \<open>
  \<open>now\<close> is the value of \<open>NOW()\<close> and \<open>newId\<close> the value of \<open>gen_random_uuid()\<close> in the
  \<open>INSERT\<close>. The defaults of the destructuring are \<open>'USD'\<close>, \<open>0\<close> and \<open>[]\<close>.
\<close>

definition deal_create ::
  "db \<Rightarrow> uuid \<Rightarrow> timestamp \<Rightarrow> uuid \<Rightarrow> deal_create_body
     \<Rightarrow> (AppError + DealWithRelations option) \<times> db" where
  "deal_create st userId now newId body =
     (let currency = (case dc_currency body of None \<Rightarrow> ''USD'' | Some v \<Rightarrow> v);
          probability = (case dc_probability body of None \<Rightarrow> 0 | Some v \<Rightarrow> v);
          products = (case dc_products body of None \<Rightarrow> ''[]'' | Some v \<Rightarrow> v)
      in
      case userRow st userId of
        None \<Rightarrow> (Inl (NotFoundError ''User not found''), st)
      | Some org \<Rightarrow>
          (case queryOne [c \<leftarrow> customers st. customer_visible (dc_customerId body) org c] of
             None \<Rightarrow> (Inl (NotFoundError ''Customer not found''), st)
           | Some customer \<Rightarrow>
               (case queryOne [p \<leftarrow> pipelines st.
                                 p_id p = dc_pipelineId body \<and> p_organizationId p = org] of
                  None \<Rightarrow> (Inl (NotFoundError ''Pipeline not found''), st)
                | Some pipeline \<Rightarrow>
                    if \<not> stageExists (p_stages pipeline) (dc_stageId body)
                    then (Inl (ValidationError ''Invalid stage ID for this pipeline''), st)
                    else if probability < 0 \<or> probability > 100
                    then (Inl (ValidationError ''Probability must be between 0 and 100''), st)
                    else
                      let deal = \<lparr>d_id = newId, d_customerId = dc_customerId body,
                                   d_pipelineId = dc_pipelineId body, d_stageId = dc_stageId body,
                                   d_title = dc_title body, d_value = dc_value body,
                                   d_currency = currency,
                                   d_expectedCloseDate = undef_or_null (dc_expectedCloseDate body),
                                   d_actualCloseDate = None, d_probability = probability,
                                   d_notes = str_or_null (undef_or_null (dc_notes body)),
                                   d_products = products, d_createdAt = now, d_updatedAt = now,
                                   d_ownerId = userId\<rparr>;
                          st' = st\<lparr>deals := deals st @ [deal]\<rparr>
                      in (Inr (deal_fetch st' (d_id deal)), st'))))"

record deal_update_body =
  du_title :: "string option"
  du_value :: "int option"
  du_currency :: "string option"
  du_expectedCloseDate :: "timestamp nullable option"
  du_actualCloseDate :: "timestamp nullable option"
  du_probability :: "int option"
  du_stageId :: "string option"
  du_notes :: "string nullable option"
  du_products :: "string option"

definition deal_updates :: "deal_update_body \<Rightarrow> (deal \<Rightarrow> deal) list" where
  "deal_updates body =
     push_if (du_title body) (\<lambda>v d. d\<lparr>d_title := v\<rparr>) @
     push_if (du_value body) (\<lambda>v d. d\<lparr>d_value := v\<rparr>) @
     push_if (du_currency body) (\<lambda>v d. d\<lparr>d_currency := v\<rparr>) @
     push_if (du_expectedCloseDate body) (\<lambda>v d. d\<lparr>d_expectedCloseDate := v\<rparr>) @
     push_if (du_actualCloseDate body) (\<lambda>v d. d\<lparr>d_actualCloseDate := v\<rparr>) @
     push_if (du_probability body) (\<lambda>v d. d\<lparr>d_probability := v\<rparr>) @
     push_if (du_stageId body) (\<lambda>v d. d\<lparr>d_stageId := v\<rparr>) @
     push_if (du_notes body) (\<lambda>v d. d\<lparr>d_notes := str_or_null v\<rparr>) @
     push_if (du_products body) (\<lambda>v d. d\<lparr>d_products := v\<rparr>)"

definition deal_update ::
  "db \<Rightarrow> uuid \<Rightarrow> uuid \<Rightarrow> timestamp \<Rightarrow> deal_update_body
     \<Rightarrow> (AppError + DealWithRelations option) \<times> db" where
  "deal_update st userId rid now body =
     (case userRow st userId of
        None \<Rightarrow> (Inl (NotFoundError ''User not found''), st)
      | Some org \<Rightarrow>
          (case queryOne [d. d \<leftarrow> deals st, c \<leftarrow> customers st, d_customerId d = c_id c,
                             d_id d = rid \<and> c_organizationId c = org] of
             None \<Rightarrow> (Inl (NotFoundError ''Deal not found''), st)
           | Some existing \<Rightarrow>
               if (case du_stageId body of
                     None \<Rightarrow> False
                   | Some stageId \<Rightarrow>
                       stageId \<noteq> [] \<and>
                       (case queryOne [p \<leftarrow> pipelines st. p_id p = d_pipelineId existing] of
                          None \<Rightarrow> False
                        | Some pipeline \<Rightarrow> \<not> stageExists (p_stages pipeline) stageId))
               then (Inl (ValidationError ''Invalid stage ID for this pipeline''), st)
               else if (case du_probability body of
                          None \<Rightarrow> False
                        | Some probability \<Rightarrow> probability < 0 \<or> probability > 100)
               then (Inl (ValidationError ''Probability must be between 0 and 100''), st)
               else
                 let updates = deal_updates body in
                 if updates = [] then
                   (case deal_fetch st rid of
                      None \<Rightarrow> (Inl (NotFoundError ''Deal not found''), st)
                    | Some existingDeal \<Rightarrow> (Inr (Some existingDeal), st))
                 else
                   let updates' = updates @ [\<lambda>d. d\<lparr>d_updatedAt := now\<rparr>];
                       result = sql_returning (\<lambda>d. d_id d = rid) updates' (deals st);
                       st' = st\<lparr>deals := sql_update (\<lambda>d. d_id d = rid) updates' (deals st)\<rparr>
                   in if result = [] then (Inl (NotFoundError ''Deal not found''), st')
                      else (Inr (deal_fetch st' rid), st')))"

text \<open>
  \<open>DELETE FROM deals d USING customers c
  WHERE d.id = $1 AND d."customerId" = c.id AND c."organizationId" = $2 RETURNING d.id\<close>
\<close>

definition deal_delete :: "db \<Rightarrow> uuid \<Rightarrow> uuid \<Rightarrow> (AppError + string) \<times> db" where
  "deal_delete st userId rid =
     (case userRow st userId of
        None \<Rightarrow> (Inl (NotFoundError ''User not found''), st)
      | Some org \<Rightarrow>
          let wh = (\<lambda>d. d_id d = rid \<and>
                      list_ex (\<lambda>c. d_customerId d = c_id c \<and> c_organizationId c = org)
                        (customers st));
              result = filter wh (deals st);
              st' = st\<lparr>deals := filter (\<lambda>d. \<not> wh d) (deals st)\<rparr>
          in if result = [] then (Inl (NotFoundError ''Deal not found''), st')
             else (Inr ''Deal deleted successfully'', st'))"

section \<open>Pipeline controller\<close>

definition pipeline_getById :: "db \<Rightarrow> uuid \<Rightarrow> uuid \<Rightarrow> AppError + pipeline" where
  "pipeline_getById st userId rid =
     (case userRow st userId of
        None \<Rightarrow> Inl (NotFoundError ''User not found'')
      | Some org \<Rightarrow>
          (case queryOne [p \<leftarrow> pipelines st. p_id p = rid \<and> p_organizationId p = org] of
             None \<Rightarrow> Inl (NotFoundError ''Pipeline not found'')
           | Some pipeline \<Rightarrow> Inr pipeline))"

definition pipeline_getDefault ::
  "db \<Rightarrow> uuid \<Rightarrow> (pipeline \<Rightarrow> nat) \<Rightarrow> AppError + pipeline" where
  "pipeline_getDefault st userId tie =
     (case userRow st userId of
        None \<Rightarrow> Inl (NotFoundError ''User not found'')
      | Some org \<Rightarrow>
          (case queryOne [p \<leftarrow> pipelines st. p_organizationId p = org \<and> p_isDefault p] of
             None \<Rightarrow>
               (case queryOne (order_by_asc tie p_createdAt
                                 [p \<leftarrow> pipelines st. p_organizationId p = org]) of
                  None \<Rightarrow> Inl (NotFoundError ''No pipeline found for this organization'')
                | Some firstPipeline \<Rightarrow> Inr firstPipeline)
           | Some pipeline \<Rightarrow> Inr pipeline))"

section \<open>Task controller\<close>

record task_relations =
  assigneeFirstName :: string
  assigneeLastName :: string
  assigneeEmail :: string
  taskCustomerFirstName :: "string option"
  taskCustomerLastName :: "string option"

type_synonym TaskWithRelations = "task \<times> task_relations"

definition taskWithRelations :: "task \<Rightarrow> user \<Rightarrow> customer option \<Rightarrow> TaskWithRelations" where
  "taskWithRelations t u c =
     (t, \<lparr>assigneeFirstName = u_firstName u, assigneeLastName = u_lastName u,
          assigneeEmail = u_email u, taskCustomerFirstName = map_option c_firstName c,
          taskCustomerLastName = map_option c_lastName c\<rparr>)"

text \<open>The right side of a \<open>LEFT JOIN\<close>: the matching rows, or one null row.\<close>

definition left_join :: "'a list \<Rightarrow> 'a option list" where
  "left_join rows = (if rows = [] then [None] else map Some rows)"

text \<open>
  \<open>FROM tasks t INNER JOIN users u ON t."assigneeId" = u.id
  LEFT JOIN customers c ON t."relatedCustomerId" = c.id\<close>
\<close>

definition task_join :: "db \<Rightarrow> (task \<times> user \<times> customer option) list" where
  "task_join st =
     [(t, u, c). t \<leftarrow> tasks st, u \<leftarrow> users st, t_assigneeId t = u_id u,
                 c \<leftarrow> left_join [c \<leftarrow> customers st. t_relatedCustomerId t = Some (c_id c)]]"

definition task_fetch :: "db \<Rightarrow> uuid \<Rightarrow> TaskWithRelations option" where
  "task_fetch st rid =
     queryOne [taskWithRelations t u c. (t, u, c) \<leftarrow> task_join st, t_id t = rid]"

definition task_getById :: "db \<Rightarrow> uuid \<Rightarrow> uuid \<Rightarrow> AppError + TaskWithRelations" where
  "task_getById st userId rid =
     (case userRow st userId of
        None \<Rightarrow> Inl (NotFoundError ''User not found'')
      | Some org \<Rightarrow>
          (case queryOne [taskWithRelations t u c.
                            (t, u, c) \<leftarrow> task_join st, t_id t = rid \<and> u_organizationId u = org] of
             None \<Rightarrow> Inl (NotFoundError ''Task not found'')
           | Some task \<Rightarrow> Inr task))"

record task_create_body =
  tc_title :: string
  tc_description :: "string nullable option"
  tc_priority :: "TaskPriority option"
  tc_status :: "TaskStatus option"
  tc_dueDate :: "timestamp nullable option"
  tc_assigneeId :: "uuid option"
  tc_relatedCustomerId :: "uuid nullable option"
  tc_relatedDealId :: "uuid nullable option"
  tc_isRecurring :: "bool option"
  tc_recurrenceRule :: "string nullable option"

text \<open>
  The \<open>INSERT\<close> of create writes the literal \<open>NULL\<close> into \<open>"timeSpent"\<close> and \<open>"completedAt"\<close>.
  The defaults of the destructuring are \<open>'MEDIUM'\<close>, \<open>'PENDING'\<close> and \<open>false\<close>.
\<close>

definition task_create ::
  "db \<Rightarrow> uuid \<Rightarrow> timestamp \<Rightarrow> uuid \<Rightarrow> task_create_body
     \<Rightarrow> (AppError + TaskWithRelations option) \<times> db" where
  "task_create st userId now newId body =
     (let priority = (case tc_priority body of None \<Rightarrow> MEDIUM | Some v \<Rightarrow> v);
          status = (case tc_status body of None \<Rightarrow> PENDING | Some v \<Rightarrow> v);
          isRecurring = (case tc_isRecurring body of None \<Rightarrow> False | Some v \<Rightarrow> v);
          assigneeOrUser = (case tc_assigneeId body of
                              None \<Rightarrow> userId
                            | Some a \<Rightarrow> if a = [] then userId else a)
      in
      case userRow st userId of
        None \<Rightarrow> (Inl (NotFoundError ''User not found''), st)
      | Some org \<Rightarrow>
          (case queryOne [u \<leftarrow> users st. u_id u = assigneeOrUser \<and> u_organizationId u = org] of
             None \<Rightarrow> (Inl (NotFoundError ''Assignee not found''), st)
           | Some assignee \<Rightarrow>
               if (case str_or_null (undef_or_null (tc_relatedCustomerId body)) of
                     None \<Rightarrow> False
                   | Some relatedCustomerId \<Rightarrow>
                       queryOne [c \<leftarrow> customers st. customer_visible relatedCustomerId org c]
                         = None)
               then (Inl (NotFoundError ''Customer not found''), st)
               else
                 let task = \<lparr>t_id = newId, t_title = tc_title body,
                              t_description = str_or_null (undef_or_null (tc_description body)),
                              t_priority = priority, t_status = status,
                              t_dueDate = undef_or_null (tc_dueDate body),
                              t_assigneeId = assigneeOrUser,
                              t_relatedCustomerId =
                                str_or_null (undef_or_null (tc_relatedCustomerId body)),
                              t_relatedDealId =
                                str_or_null (undef_or_null (tc_relatedDealId body)),
                              t_isRecurring = isRecurring,
                              t_recurrenceRule =
                                str_or_null (undef_or_null (tc_recurrenceRule body)),
                              t_timeSpent = None, t_completedAt = None,
                              t_createdAt = now, t_updatedAt = now\<rparr>;
                     st' = st\<lparr>tasks := tasks st @ [task]\<rparr>
                 in (Inr (task_fetch st' (t_id task)), st')))"

record task_update_body =
  tu_title :: "string option"
  tu_description :: "string nullable option"
  tu_priority :: "TaskPriority option"
  tu_status :: "TaskStatus option"
  tu_dueDate :: "timestamp nullable option"
  tu_assigneeId :: "uuid option"
  tu_relatedCustomerId :: "uuid nullable option"
  tu_relatedDealId :: "uuid nullable option"
  tu_timeSpent :: "int nullable option"
  tu_completedAt :: "timestamp nullable option"

text \<open>
  Update reads \<open>completedAt\<close> from the body and, before it builds the statement, assigns
  \<open>req.body.completedAt\<close>; nothing reads that assignment afterwards, and no branch pushes
  the body's \<open>completedAt\<close>. The \<open>status\<close> branch pushes two assignments: the status, and
  \<open>"completedAt" = NOW()\<close> or \<open>"completedAt" = NULL\<close>.
\<close>

definition task_updates :: "timestamp \<Rightarrow> task_update_body \<Rightarrow> (task \<Rightarrow> task) list" where
  "task_updates now body =
     push_if (tu_title body) (\<lambda>v t. t\<lparr>t_title := v\<rparr>) @
     push_if (tu_description body) (\<lambda>v t. t\<lparr>t_description := str_or_null v\<rparr>) @
     push_if (tu_priority body) (\<lambda>v t. t\<lparr>t_priority := v\<rparr>) @
     (case tu_status body of
        None \<Rightarrow> []
      | Some status \<Rightarrow>
          [\<lambda>t. t\<lparr>t_status := status\<rparr>,
           if status = COMPLETE then (\<lambda>t. t\<lparr>t_completedAt := Some now\<rparr>)
           else (\<lambda>t. t\<lparr>t_completedAt := None\<rparr>)]) @
     push_if (tu_dueDate body) (\<lambda>v t. t\<lparr>t_dueDate := v\<rparr>) @
     push_if (tu_assigneeId body) (\<lambda>v t. t\<lparr>t_assigneeId := v\<rparr>) @
     push_if (tu_relatedCustomerId body) (\<lambda>v t. t\<lparr>t_relatedCustomerId := str_or_null v\<rparr>) @
     push_if (tu_relatedDealId body) (\<lambda>v t. t\<lparr>t_relatedDealId := str_or_null v\<rparr>) @
     push_if (tu_timeSpent body) (\<lambda>v t. t\<lparr>t_timeSpent := num_or_null v\<rparr>)"

definition task_update ::
  "db \<Rightarrow> uuid \<Rightarrow> uuid \<Rightarrow> timestamp \<Rightarrow> task_update_body
     \<Rightarrow> (AppError + TaskWithRelations option) \<times> db" where
  "task_update st userId rid now body =
     (case userRow st userId of
        None \<Rightarrow> (Inl (NotFoundError ''User not found''), st)
      | Some org \<Rightarrow>
          (case queryOne [t. t \<leftarrow> tasks st, u \<leftarrow> users st, t_assigneeId t = u_id u,
                             t_id t = rid \<and> u_organizationId u = org] of
             None \<Rightarrow> (Inl (NotFoundError ''Task not found''), st)
           | Some existing \<Rightarrow>
               if (case tu_assigneeId body of
                     None \<Rightarrow> False
                   | Some assigneeId \<Rightarrow>
                       assigneeId \<noteq> [] \<and>
                       queryOne [u \<leftarrow> users st.
                                   u_id u = assigneeId \<and> u_organizationId u = org] = None)
               then (Inl (NotFoundError ''Assignee not found''), st)
               else if (case str_or_null (undef_or_null (tu_relatedCustomerId body)) of
                          None \<Rightarrow> False
                        | Some relatedCustomerId \<Rightarrow>
                            queryOne [c \<leftarrow> customers st.
                                        customer_visible relatedCustomerId org c] = None)
               then (Inl (NotFoundError ''Customer not found''), st)
               else
                 let updates = task_updates now body in
                 if updates = [] then
                   (case task_fetch st rid of
                      None \<Rightarrow> (Inl (NotFoundError ''Task not found''), st)
                    | Some existingTask \<Rightarrow> (Inr (Some existingTask), st))
                 else
                   let updates' = updates @ [\<lambda>t. t\<lparr>t_updatedAt := now\<rparr>];
                       result = sql_returning (\<lambda>t. t_id t = rid) updates' (tasks st);
                       st' = st\<lparr>tasks := sql_update (\<lambda>t. t_id t = rid) updates' (tasks st)\<rparr>
                   in if result = [] then (Inl (NotFoundError ''Task not found''), st')
                      else (Inr (task_fetch st' rid), st')))"

text \<open>
  \<open>DELETE FROM tasks t USING users u
  WHERE t.id = $1 AND t."assigneeId" = u.id AND u."organizationId" = $2 RETURNING t.id\<close>
\<close>

definition task_delete :: "db \<Rightarrow> uuid \<Rightarrow> uuid \<Rightarrow> (AppError + string) \<times> db" where
  "task_delete st userId rid =
     (case userRow st userId of
        None \<Rightarrow> (Inl (NotFoundError ''User not found''), st)
      | Some org \<Rightarrow>
          let wh = (\<lambda>t. t_id t = rid \<and>
                      list_ex (\<lambda>u. t_assigneeId t = u_id u \<and> u_organizationId u = org)
                        (users st));
              result = filter wh (tasks st);
              st' = st\<lparr>tasks := filter (\<lambda>t. \<not> wh t) (tasks st)\<rparr>
          in if result = [] then (Inl (NotFoundError ''Task not found''), st')
             else (Inr ''Task deleted successfully'', st'))"

section \<open>Contact history controller\<close>

record contact_relations =
  contactCustomerFirstName :: string
  contactCustomerLastName :: string
  contactCustomerEmail :: string
  creatorFirstName :: string
  creatorLastName :: string
  creatorEmail :: string

type_synonym ContactHistoryWithRelations = "contact \<times> contact_relations"

definition contactWithRelations :: "contact \<Rightarrow> customer \<Rightarrow> user \<Rightarrow> ContactHistoryWithRelations" where
  "contactWithRelations ch c u =
     (ch, \<lparr>contactCustomerFirstName = c_firstName c, contactCustomerLastName = c_lastName c,
           contactCustomerEmail = c_email c, creatorFirstName = u_firstName u,
           creatorLastName = u_lastName u, creatorEmail = u_email u\<rparr>)"

text \<open>
  \<open>FROM contact_history ch INNER JOIN customers c ON ch."customerId" = c.id
  INNER JOIN users u ON ch."createdBy" = u.id\<close>
\<close>

definition contact_join :: "db \<Rightarrow> (contact \<times> customer \<times> user) list" where
  "contact_join st =
     [(ch, c, u). ch \<leftarrow> contact_history st, c \<leftarrow> customers st, ch_customerId ch = c_id c,
                  u \<leftarrow> users st, ch_createdBy ch = u_id u]"

definition contact_fetch :: "db \<Rightarrow> uuid \<Rightarrow> ContactHistoryWithRelations option" where
  "contact_fetch st rid =
     queryOne [contactWithRelations ch c u. (ch, c, u) \<leftarrow> contact_join st, ch_id ch = rid]"

text \<open>
  The list query before \<open>ORDER BY\<close>: the join under the organization filter and the
  optional \<open>customerId\<close> and \<open>type\<close> filters (a filter applies when its query parameter is
  truthy).
\<close>

definition contact_filter :: "uuid \<Rightarrow> string option \<Rightarrow> ContactType option \<Rightarrow> contact \<Rightarrow> customer \<Rightarrow> bool" where
  "contact_filter org customerId type ch c \<longleftrightarrow>
     c_organizationId c = org \<and> c_deletedAt c = None
     \<and> (if truthy customerId then Some (ch_customerId ch) = customerId else True)
     \<and> (case type of None \<Rightarrow> True | Some ty \<Rightarrow> ch_type ch = ty)"

definition contact_matching ::
  "db \<Rightarrow> uuid \<Rightarrow> string option \<Rightarrow> ContactType option \<Rightarrow> ContactHistoryWithRelations list" where
  "contact_matching st org customerId type =
     [contactWithRelations ch c u. (ch, c, u) \<leftarrow> contact_join st,
                                   contact_filter org customerId type ch c]"

record contact_metadata =
  total :: nat
  limit :: nat
  offset :: nat
  hasMore :: bool

text \<open>
  \<open>limit\<close> and \<open>offset\<close> are the query parameters after \<open>parseInt\<close>, absent ones
  defaulting to \<open>'50'\<close> and \<open>'0'\<close>; \<open>type\<close> is a value of the \<open>"ContactType"\<close> enum. The
  count query joins \<open>customers\<close> only. The list query orders by \<open>ch."createdAt" DESC\<close>
  alone; \<open>tie\<close> is the order this request gives to entries created at the same time.
\<close>

definition contact_getAll ::
  "db \<Rightarrow> uuid \<Rightarrow> string option \<Rightarrow> ContactType option \<Rightarrow> nat option \<Rightarrow> nat option
     \<Rightarrow> (ContactHistoryWithRelations \<Rightarrow> nat)
     \<Rightarrow> AppError + ContactHistoryWithRelations list \<times> contact_metadata" where
  "contact_getAll st userId customerId type limitParam offsetParam tie =
     (let lim = (case limitParam of None \<Rightarrow> 50 | Some n \<Rightarrow> n);
          off = (case offsetParam of None \<Rightarrow> 0 | Some n \<Rightarrow> n)
      in
      case userRow st userId of
        None \<Rightarrow> Inl (NotFoundError ''User not found'')
      | Some org \<Rightarrow>
          let contacts =
                take lim (drop off
                  (order_by_desc tie (\<lambda>r. ch_createdAt (fst r))
                     (contact_matching st org customerId type)));
              countResult =
                length [ch. ch \<leftarrow> contact_history st, c \<leftarrow> customers st,
                            ch_customerId ch = c_id c, contact_filter org customerId type ch c]
          in Inr (contacts,
                  \<lparr>total = countResult, limit = lim, offset = off,
                   hasMore = (off + length contacts < countResult)\<rparr>))"

definition contact_getById :: "db \<Rightarrow> uuid \<Rightarrow> uuid \<Rightarrow> AppError + ContactHistoryWithRelations" where
  "contact_getById st userId rid =
     (case userRow st userId of
        None \<Rightarrow> Inl (NotFoundError ''User not found'')
      | Some org \<Rightarrow>
          (case queryOne [contactWithRelations ch c u.
                            (ch, c, u) \<leftarrow> contact_join st,
                            ch_id ch = rid \<and> c_organizationId c = org \<and> c_deletedAt c = None] of
             None \<Rightarrow> Inl (NotFoundError ''Contact history entry not found'')
           | Some contact \<Rightarrow> Inr contact))"

record contact_update_body =
  cu_subject :: "string nullable option"
  cu_body :: "string option"
  cu_duration :: "int nullable option"
  cu_attachments :: "string list option"
  cu_aiSummary :: "string nullable option"

text \<open>
  The attachments are written as an \<open>ARRAY[...]::TEXT[]\<close> literal with every quote
  doubled, which stores the strings as they are. The statement does not touch a
  last-modified column: \<open>contact_history\<close> has none.
\<close>

definition contact_updates :: "contact_update_body \<Rightarrow> (contact \<Rightarrow> contact) list" where
  "contact_updates body =
     push_if (cu_subject body) (\<lambda>v ch. ch\<lparr>ch_subject := str_or_null v\<rparr>) @
     push_if (cu_body body) (\<lambda>v ch. ch\<lparr>ch_body := v\<rparr>) @
     push_if (cu_duration body) (\<lambda>v ch. ch\<lparr>ch_duration := num_or_null v\<rparr>) @
     push_if (cu_attachments body) (\<lambda>v ch. ch\<lparr>ch_attachments := v\<rparr>) @
     push_if (cu_aiSummary body) (\<lambda>v ch. ch\<lparr>ch_aiSummary := str_or_null v\<rparr>)"

definition contact_update ::
  "db \<Rightarrow> uuid \<Rightarrow> uuid \<Rightarrow> contact_update_body
     \<Rightarrow> (AppError + ContactHistoryWithRelations option) \<times> db" where
  "contact_update st userId rid body =
     (case userRow st userId of
        None \<Rightarrow> (Inl (NotFoundError ''User not found''), st)
      | Some org \<Rightarrow>
          (case queryOne [ch. ch \<leftarrow> contact_history st, c \<leftarrow> customers st,
                              ch_customerId ch = c_id c,
                              ch_id ch = rid \<and> c_organizationId c = org] of
             None \<Rightarrow> (Inl (NotFoundError ''Contact history entry not found''), st)
           | Some existing \<Rightarrow>
               let updates = contact_updates body in
               if updates = [] then
                 (case contact_fetch st rid of
                    None \<Rightarrow> (Inl (NotFoundError ''Contact history entry not found''), st)
                  | Some existingContact \<Rightarrow> (Inr (Some existingContact), st))
               else
                 let result = sql_returning (\<lambda>ch. ch_id ch = rid) updates (contact_history st);
                     st' = st\<lparr>contact_history :=
                               sql_update (\<lambda>ch. ch_id ch = rid) updates (contact_history st)\<rparr>
                 in if result = [] then (Inl (NotFoundError ''Contact history entry not found''), st')
                    else (Inr (contact_fetch st' rid), st')))"

text \<open>
  \<open>DELETE FROM contact_history ch USING customers c
  WHERE ch.id = $1 AND ch."customerId" = c.id AND c."organizationId" = $2 RETURNING ch.id\<close>
\<close>

definition contact_delete :: "db \<Rightarrow> uuid \<Rightarrow> uuid \<Rightarrow> (AppError + string) \<times> db" where
  "contact_delete st userId rid =
     (case userRow st userId of
        None \<Rightarrow> (Inl (NotFoundError ''User not found''), st)
      | Some org \<Rightarrow>
          let wh = (\<lambda>ch. ch_id ch = rid \<and>
                      list_ex (\<lambda>c. ch_customerId ch = c_id c \<and> c_organizationId c = org)
                        (customers st));
              result = filter wh (contact_history st);
              st' = st\<lparr>contact_history := filter (\<lambda>ch. \<not> wh ch) (contact_history st)\<rparr>
          in if result = [] then (Inl (NotFoundError ''Contact history entry not found''), st')
             else (Inr ''Contact history entry deleted successfully'', st'))"

text \<open>
  Paging through the list: \<open>n\<close> requests for the pages of \<open>lim\<close> rows at the offsets
  \<open>0\<close>, \<open>lim\<close>, \<open>2 * lim\<close>, ..., \<open>(n - 1) * lim\<close>, concatenated. Each request is a
  statement of its own: \<open>ties k\<close> is the order the \<open>k\<close>-th request gives to entries created
  at the same time.
\<close>

definition contact_page ::
  "db \<Rightarrow> uuid \<Rightarrow> string option \<Rightarrow> ContactType option \<Rightarrow> nat \<Rightarrow> nat
     \<Rightarrow> (ContactHistoryWithRelations \<Rightarrow> nat) \<Rightarrow> ContactHistoryWithRelations list" where
  "contact_page st userId customerId type lim off tie =
     (case contact_getAll st userId customerId type (Some lim) (Some off) tie of
        Inl e \<Rightarrow> []
      | Inr (contacts, metadata) \<Rightarrow> contacts)"

definition contact_pages ::
  "db \<Rightarrow> uuid \<Rightarrow> string option \<Rightarrow> ContactType option \<Rightarrow> nat \<Rightarrow> nat
     \<Rightarrow> (nat \<Rightarrow> ContactHistoryWithRelations \<Rightarrow> nat) \<Rightarrow> ContactHistoryWithRelations list" where
  "contact_pages st userId customerId type lim n ties =
     concat (map (\<lambda>k. contact_page st userId customerId type lim (k * lim) (ties k)) [0..<n])"

section \<open>A sample database\<close>

text \<open>
  Two organizations, Acme and Globex, with one user each. Acme has two customers (one
  already soft-deleted), a default pipeline, a deal, a task and three contact-history
  entries; Globex has a customer, a pipeline, a deal, a task and one entry.
\<close>

definition acme :: organization where
  "acme = \<lparr>o_id = ''org-acme'', o_name = ''Acme''\<rparr>"

definition globex :: organization where
  "globex = \<lparr>o_id = ''org-globex'', o_name = ''Globex''\<rparr>"

definition alice :: user where
  "alice = \<lparr>u_id = ''u-alice'', u_email = ''alice@acme.com'', u_firstName = ''Alice'',
            u_lastName = ''A'', u_organizationId = ''org-acme''\<rparr>"

definition bob :: user where
  "bob = \<lparr>u_id = ''u-bob'', u_email = ''bob@globex.com'', u_firstName = ''Bob'',
          u_lastName = ''B'', u_organizationId = ''org-globex''\<rparr>"

definition john :: customer where
  "john = \<lparr>c_id = ''c-john'', c_firstName = ''John'', c_lastName = ''X'',
           c_email = ''john@x.com'', c_phone = ''555-0100'', c_company = None, c_tags = [],
           c_customFields = None, c_createdAt = 10, c_updatedAt = 10, c_deletedAt = None,
           c_createdBy = ''u-alice'', c_organizationId = ''org-acme''\<rparr>"

definition jane :: customer where
  "jane = \<lparr>c_id = ''c-jane'', c_firstName = ''Jane'', c_lastName = ''Y'',
           c_email = ''jane@y.com'', c_phone = ''555-0101'', c_company = Some ''Y Ltd'',
           c_tags = [''vip''], c_customFields = None, c_createdAt = 11, c_updatedAt = 12,
           c_deletedAt = Some 12, c_createdBy = ''u-alice'', c_organizationId = ''org-acme''\<rparr>"

definition gary :: customer where
  "gary = \<lparr>c_id = ''c-gary'', c_firstName = ''Gary'', c_lastName = ''Z'',
           c_email = ''gary@z.com'', c_phone = ''555-0102'', c_company = None, c_tags = [],
           c_customFields = None, c_createdAt = 13, c_updatedAt = 13, c_deletedAt = None,
           c_createdBy = ''u-bob'', c_organizationId = ''org-globex''\<rparr>"

definition acme_pipeline :: pipeline where
  "acme_pipeline =
     \<lparr>p_id = ''p-acme'', p_name = ''Sales Pipeline'',
      p_stages = [\<lparr>stage_id = ''1'', stage_name = ''Lead'', stage_order = 1, stage_probability = 10\<rparr>,
                  \<lparr>stage_id = ''2'', stage_name = ''Qualified'', stage_order = 2, stage_probability = 30\<rparr>],
      p_isDefault = True, p_createdAt = 5, p_updatedAt = 5, p_createdBy = ''u-alice'',
      p_organizationId = ''org-acme''\<rparr>"

definition globex_pipeline :: pipeline where
  "globex_pipeline =
     \<lparr>p_id = ''p-globex'', p_name = ''Globex Pipeline'',
      p_stages = [\<lparr>stage_id = ''g1'', stage_name = ''Open'', stage_order = 1, stage_probability = 20\<rparr>,
                  \<lparr>stage_id = [], stage_name = ''Unnamed'', stage_order = 2, stage_probability = 40\<rparr>],
      p_isDefault = False, p_createdAt = 6, p_updatedAt = 6, p_createdBy = ''u-bob'',
      p_organizationId = ''org-globex''\<rparr>"

definition acme_deal :: deal where
  "acme_deal = \<lparr>d_id = ''d-acme'', d_customerId = ''c-john'', d_pipelineId = ''p-acme'',
                d_stageId = ''1'', d_title = ''Big deal'', d_value = 500000, d_currency = ''USD'',
                d_expectedCloseDate = None, d_actualCloseDate = None, d_probability = 10,
                d_notes = None, d_products = ''[]'', d_createdAt = 20, d_updatedAt = 20,
                d_ownerId = ''u-alice''\<rparr>"

definition globex_deal :: deal where
  "globex_deal = \<lparr>d_id = ''d-globex'', d_customerId = ''c-gary'', d_pipelineId = ''p-globex'',
                  d_stageId = ''g1'', d_title = ''Other deal'', d_value = 100, d_currency = ''EUR'',
                  d_expectedCloseDate = None, d_actualCloseDate = None, d_probability = 20,
                  d_notes = None, d_products = ''[]'', d_createdAt = 21, d_updatedAt = 21,
                  d_ownerId = ''u-bob''\<rparr>"

definition acme_task :: task where
  "acme_task = \<lparr>t_id = ''t-acme'', t_title = ''Call John'', t_description = None,
                t_priority = MEDIUM, t_status = PENDING, t_dueDate = None,
                t_assigneeId = ''u-alice'', t_relatedCustomerId = Some ''c-john'',
                t_relatedDealId = None, t_isRecurring = False, t_recurrenceRule = None,
                t_timeSpent = None, t_completedAt = None, t_createdAt = 30, t_updatedAt = 30\<rparr>"

definition globex_task :: task where
  "globex_task = \<lparr>t_id = ''t-globex'', t_title = ''Mail Gary'', t_description = None,
                  t_priority = LOW, t_status = PENDING, t_dueDate = None,
                  t_assigneeId = ''u-bob'', t_relatedCustomerId = None,
                  t_relatedDealId = None, t_isRecurring = False, t_recurrenceRule = None,
                  t_timeSpent = None, t_completedAt = None, t_createdAt = 31, t_updatedAt = 31\<rparr>"

definition entry :: "uuid \<Rightarrow> uuid \<Rightarrow> ContactType \<Rightarrow> timestamp \<Rightarrow> uuid \<Rightarrow> contact" where
  "entry rid customerId type createdAt createdBy =
     \<lparr>ch_id = rid, ch_customerId = customerId, ch_type = type, ch_subject = None,
      ch_body = ''spoke'', ch_duration = None, ch_attachments = [], ch_aiSummary = None,
      ch_createdAt = createdAt, ch_createdBy = createdBy\<rparr>"

definition sample_db :: db where
  "sample_db =
     \<lparr>organizations = [acme, globex], users = [alice, bob], customers = [john, jane, gary],
      contact_history = [entry ''h-1'' ''c-john'' CALL 40 ''u-alice'',
                         entry ''h-2'' ''c-john'' EMAIL 42 ''u-alice'',
                         entry ''h-3'' ''c-john'' NOTE 41 ''u-alice'',
                         entry ''h-4'' ''c-gary'' CALL 43 ''u-bob''],
      pipelines = [acme_pipeline, globex_pipeline], deals = [acme_deal, globex_deal],
      tasks = [acme_task, globex_task]\<rparr>"

text \<open>A deal-create request by Alice: John, the Acme pipeline, its first stage, 5000.00.\<close>

definition acme_deal_request :: deal_create_body where
  "acme_deal_request =
     \<lparr>dc_customerId = ''c-john'', dc_pipelineId = ''p-acme'', dc_stageId = ''1'',
      dc_title = ''New deal'', dc_value = 500000, dc_currency = None,
      dc_expectedCloseDate = None, dc_probability = Some 10, dc_notes = None,
      dc_products = None\<rparr>"

text \<open>A task-create request by Alice that gives only a title.\<close>

definition acme_task_request :: task_create_body where
  "acme_task_request =
     \<lparr>tc_title = ''Send offer'', tc_description = None, tc_priority = None, tc_status = None,
      tc_dueDate = None, tc_assigneeId = None, tc_relatedCustomerId = None,
      tc_relatedDealId = None, tc_isRecurring = None, tc_recurrenceRule = None\<rparr>"

text \<open>The request bodies \<open>{}\<close> of the four update operations.\<close>

definition empty_customer_body :: customer_body where
  "empty_customer_body =
     \<lparr>cb_firstName = None, cb_lastName = None, cb_email = None, cb_phone = None,
      cb_company = None, cb_tags = None, cb_customFields = None\<rparr>"

definition empty_deal_body :: deal_update_body where
  "empty_deal_body =
     \<lparr>du_title = None, du_value = None, du_currency = None, du_expectedCloseDate = None,
      du_actualCloseDate = None, du_probability = None, du_stageId = None, du_notes = None,
      du_products = None\<rparr>"

definition empty_task_body :: task_update_body where
  "empty_task_body =
     \<lparr>tu_title = None, tu_description = None, tu_priority = None, tu_status = None,
      tu_dueDate = None, tu_assigneeId = None, tu_relatedCustomerId = None,
      tu_relatedDealId = None, tu_timeSpent = None, tu_completedAt = None\<rparr>"

definition empty_contact_body :: contact_update_body where
  "empty_contact_body =
     \<lparr>cu_subject = None, cu_body = None, cu_duration = None, cu_attachments = None,
      cu_aiSummary = None\<rparr>"

text \<open>
  A database in which the three entries of John were created at the same time, and two
  orders a request may give them: \<open>plan_a\<close> ranks \<open>h-1\<close> highest, \<open>plan_b\<close> ranks it
  lowest. The first request of a paging run follows \<open>plan_a\<close>, the later ones \<open>plan_b\<close>.
\<close>

definition tied_db :: db where
  "tied_db =
     sample_db\<lparr>contact_history := [entry ''h-1'' ''c-john'' CALL 40 ''u-alice'',
                                  entry ''h-2'' ''c-john'' EMAIL 40 ''u-alice'',
                                  entry ''h-3'' ''c-john'' NOTE 40 ''u-alice'']\<rparr>"

definition plan_a :: "ContactHistoryWithRelations \<Rightarrow> nat" where
  "plan_a r = (if ch_id (fst r) = ''h-1'' then 3 else if ch_id (fst r) = ''h-2'' then 2 else 1)"

definition plan_b :: "ContactHistoryWithRelations \<Rightarrow> nat" where
  "plan_b r = (if ch_id (fst r) = ''h-1'' then 1 else if ch_id (fst r) = ''h-2'' then 2 else 3)"

definition request_plans :: "nat \<Rightarrow> ContactHistoryWithRelations \<Rightarrow> nat" where
  "request_plans k = (if k = 0 then plan_a else plan_b)"

section \<open>Basic facts about the helpers\<close>

lemmas sample_defs = sample_db_def acme_def globex_def alice_def bob_def john_def jane_def
  gary_def acme_pipeline_def globex_pipeline_def acme_deal_def globex_deal_def acme_task_def
  globex_task_def entry_def

lemmas empty_body_defs = empty_customer_body_def empty_deal_body_def empty_task_body_def
  empty_contact_body_def

lemma queryOne_Nil [simp]: "queryOne [] = None"
  by (simp add: queryOne_def)

lemma queryOne_Cons [simp]: "queryOne (r # rs) = Some r"
  by (simp add: queryOne_def)

lemma queryOne_None [simp]: "queryOne rows = None \<longleftrightarrow> rows = []"
  by (cases rows) simp_all

lemma queryOne_Some_mem: "queryOne rows = Some r \<Longrightarrow> r \<in> set rows"
  by (cases rows) auto

lemma userRow_customers [simp]: "userRow (st\<lparr>customers := cs\<rparr>) userId = userRow st userId"
  by (simp add: userRow_def)

lemma in_sql_update:
  "r' \<in> set (sql_update wh us rows) \<longleftrightarrow> (\<exists>r \<in> set rows. r' = (if wh r then sql_set us r else r))"
  by (auto simp: sql_update_def)

section \<open>Soft deletion of customers\<close>

lemma soft_delete_set:
  "sql_set [\<lambda>c. c\<lparr>c_deletedAt := Some now\<rparr>, \<lambda>c. c\<lparr>c_updatedAt := now\<rparr>] c
     = c\<lparr>c_deletedAt := Some now, c_updatedAt := now\<rparr>"
  by (simp add: sql_set_def)

lemma soft_delete_hides:
  assumes "c \<in> set (sql_update (customer_visible rid org)
                      [\<lambda>c. c\<lparr>c_deletedAt := Some now\<rparr>, \<lambda>c. c\<lparr>c_updatedAt := now\<rparr>] cs)"
  shows "\<not> customer_visible rid org c"
proof -
  from assms obtain r where "r \<in> set cs"
    and "c = (if customer_visible rid org r
              then r\<lparr>c_deletedAt := Some now, c_updatedAt := now\<rparr> else r)"
    unfolding in_sql_update soft_delete_set by blast
  then show ?thesis
    by (cases "customer_visible rid org r") (simp_all add: customer_visible_def)
qed

lemma soft_delete_keeps:
  assumes "c \<in> set cs" "customer_visible rid org c"
  shows "\<exists>c' \<in> set (sql_update (customer_visible rid org)
                       [\<lambda>c. c\<lparr>c_deletedAt := Some now\<rparr>, \<lambda>c. c\<lparr>c_updatedAt := now\<rparr>] cs).
           c_id c' = rid \<and> c_organizationId c' = org \<and> c_deletedAt c' = Some now"
proof -
  let ?c' = "c\<lparr>c_deletedAt := Some now, c_updatedAt := now\<rparr>"
  have "?c' \<in> set (sql_update (customer_visible rid org)
                     [\<lambda>c. c\<lparr>c_deletedAt := Some now\<rparr>, \<lambda>c. c\<lparr>c_updatedAt := now\<rparr>] cs)"
    unfolding in_sql_update soft_delete_set using assms by (intro bexI[of _ c]) simp_all
  moreover have "c_id ?c' = rid" "c_organizationId ?c' = org" "c_deletedAt ?c' = Some now"
    using assms(2) by (simp_all add: customer_visible_def)
  ultimately show ?thesis by blast
qed

lemma soft_delete_ids:
  "map c_id (sql_update (customer_visible rid org)
               [\<lambda>c. c\<lparr>c_deletedAt := Some now\<rparr>, \<lambda>c. c\<lparr>c_updatedAt := now\<rparr>] cs) = map c_id cs"
  unfolding sql_update_def soft_delete_set by (induction cs) simp_all

text \<open>
  Claim C7. When a caller soft-deletes a customer that is visible to the caller's
  organization, the delete succeeds; afterwards get-by-id fails with NotFound and the
  list operation does not contain the id, while the table still holds a row with that
  id, with \<open>deletedAt\<close> set to the time of the delete, and holds the same ids as before.
\<close>

theorem customer_soft_delete:
  assumes caller: "userRow st userId = Some org"
      and visible: "\<exists>c \<in> set (customers st). customer_visible rid org c"
      and del: "customer_delete st userId rid now = (res, st')"
  shows "res = Inr ''Customer deleted successfully''
     \<and> customer_getById st' userId rid = Inl (NotFoundError ''Customer not found'')
     \<and> (\<exists>rows. customer_getAll st' userId tie = Inr rows \<and> rid \<notin> c_id ` set rows)
     \<and> (\<exists>c \<in> set (customers st').
           c_id c = rid \<and> c_organizationId c = org \<and> c_deletedAt c = Some now)
     \<and> map c_id (customers st') = map c_id (customers st)"
proof -
  let ?upd = "[\<lambda>c. c\<lparr>c_deletedAt := Some now\<rparr>, \<lambda>c. c\<lparr>c_updatedAt := now\<rparr>]"
  let ?cs' = "sql_update (customer_visible rid org) ?upd (customers st)"
  have nonempty: "sql_returning (customer_visible rid org) ?upd (customers st) \<noteq> []"
    using visible by (auto simp: sql_returning_def filter_empty_conv)
  have st': "st' = st\<lparr>customers := ?cs'\<rparr>"
    and res: "res = Inr ''Customer deleted successfully''"
    using del caller nonempty by (simp_all add: customer_delete_def Let_def)
  have caller': "userRow st' userId = Some org"
    by (simp add: st' caller)
  have cs': "customers st' = ?cs'" by (simp add: st')
  have hidden: "[c \<leftarrow> customers st'. customer_visible rid org c] = []"
    unfolding cs' filter_empty_conv using soft_delete_hides by blast
  have byId: "customer_getById st' userId rid = Inl (NotFoundError ''Customer not found'')"
    by (simp add: customer_getById_def caller' hidden)
  have "rid \<notin> c_id ` set (order_by_desc tie c_createdAt
           [c \<leftarrow> customers st'. c_organizationId c = org \<and> c_deletedAt c = None])"
  proof
    assume "rid \<in> c_id ` set (order_by_desc tie c_createdAt
           [c \<leftarrow> customers st'. c_organizationId c = org \<and> c_deletedAt c = None])"
    then obtain c where "c \<in> set (customers st')" "customer_visible rid org c"
      by (auto simp: order_by_desc_def customer_visible_def)
    then show False using soft_delete_hides cs' by metis
  qed
  then have all: "\<exists>rows. customer_getAll st' userId tie = Inr rows \<and> rid \<notin> c_id ` set rows"
    by (simp add: customer_getAll_def caller')
  have kept: "\<exists>c \<in> set (customers st').
                c_id c = rid \<and> c_organizationId c = org \<and> c_deletedAt c = Some now"
    unfolding cs' using visible soft_delete_keeps by blast
  have ids: "map c_id (customers st') = map c_id (customers st)"
    unfolding cs' by (rule soft_delete_ids)
  show ?thesis using res byId all kept ids by blast
qed

theorem customer_soft_delete_witness:
  "userRow sample_db ''u-alice'' = Some ''org-acme''
   \<and> (\<exists>c \<in> set (customers sample_db). customer_visible ''c-john'' ''org-acme'' c)
   \<and> fst (customer_delete sample_db ''u-alice'' ''c-john'' 50) = Inr ''Customer deleted successfully''
   \<and> customer_getById (snd (customer_delete sample_db ''u-alice'' ''c-john'' 50)) ''u-alice'' ''c-john''
       = Inl (NotFoundError ''Customer not found'')
   \<and> (\<exists>c \<in> set (customers (snd (customer_delete sample_db ''u-alice'' ''c-john'' 50))).
         c_id c = ''c-john'' \<and> c_deletedAt c = Some 50)"
proof -
  have h1: "userRow sample_db ''u-alice'' = Some ''org-acme''"
    by (simp add: userRow_def sample_defs)
  have h2: "\<exists>c \<in> set (customers sample_db). customer_visible ''c-john'' ''org-acme'' c"
    by (simp add: customer_visible_def sample_defs)
  have h3: "customer_delete sample_db ''u-alice'' ''c-john'' 50
              = (fst (customer_delete sample_db ''u-alice'' ''c-john'' 50),
                 snd (customer_delete sample_db ''u-alice'' ''c-john'' 50))"
    by simp
  from customer_soft_delete [OF h1 h2 h3] h1 h2 show ?thesis by blast
qed

section \<open>The default pipeline\<close>

lemma queryOne_filter_Some:
  "queryOne (filter P rows) = Some r \<Longrightarrow> r \<in> set rows \<and> P r"
  using queryOne_Some_mem [of "filter P rows" r] by simp

lemma queryOne_order_by_asc:
  assumes "queryOne (order_by_asc tie key rows) = Some r"
  shows "r \<in> set rows \<and> (\<forall>q \<in> set rows. key r \<le> key q)"
proof -
  let ?rows = "sort_key tie rows"
  from assms obtain rest where eq: "sort_key key ?rows = r # rest"
    by (cases "sort_key key ?rows") (simp_all add: order_by_asc_def)
  have "sorted (map key (sort_key key ?rows))" by (rule sorted_sort_key)
  then have "\<forall>q \<in> set (r # rest). key r \<le> key q"
    unfolding eq by auto
  moreover have "set (r # rest) = set rows"
    using eq set_sort [of key ?rows] by simp
  ultimately show ?thesis by auto
qed

text \<open>
  Claim C10. For a caller whose organization is resolved: if some pipeline of the
  organization is marked \<open>isDefault\<close>, get-default returns a pipeline of the organization
  that is marked \<open>isDefault\<close>; if none is marked and the organization has a pipeline, it
  returns a pipeline of the organization whose creation time is least; it fails exactly
  when the organization has no pipeline at all, and the failure is NotFound.
\<close>

theorem pipeline_getDefault_result:
  assumes caller: "userRow st userId = Some org"
  shows "((\<exists>p \<in> set (pipelines st). p_organizationId p = org \<and> p_isDefault p) \<longrightarrow>
            (\<exists>p \<in> set (pipelines st). pipeline_getDefault st userId tie = Inr p
                 \<and> p_organizationId p = org \<and> p_isDefault p))
       \<and> ((\<forall>p \<in> set (pipelines st). p_organizationId p = org \<longrightarrow> \<not> p_isDefault p)
            \<and> (\<exists>p \<in> set (pipelines st). p_organizationId p = org) \<longrightarrow>
            (\<exists>p \<in> set (pipelines st). pipeline_getDefault st userId tie = Inr p
                 \<and> p_organizationId p = org
                 \<and> (\<forall>q \<in> set (pipelines st). p_organizationId q = org \<longrightarrow> p_createdAt p \<le> p_createdAt q)))
       \<and> ((\<exists>e. pipeline_getDefault st userId tie = Inl e) \<longleftrightarrow>
            \<not> (\<exists>p \<in> set (pipelines st). p_organizationId p = org))
       \<and> (\<forall>e. pipeline_getDefault st userId tie = Inl e \<longrightarrow>
            e = NotFoundError ''No pipeline found for this organization'')"
proof -
  let ?defaults = "[p \<leftarrow> pipelines st. p_organizationId p = org \<and> p_isDefault p]"
  let ?own = "[p \<leftarrow> pipelines st. p_organizationId p = org]"
  show ?thesis
  proof (cases "queryOne ?defaults")
    case (Some p)
    then have res: "pipeline_getDefault st userId tie = Inr p"
      by (simp add: pipeline_getDefault_def caller)
    from Some have p: "p \<in> set (pipelines st)" "p_organizationId p = org" "p_isDefault p"
      using queryOne_filter_Some [of _ "pipelines st" p] by auto
    show ?thesis using res p by auto
  next
    case None
    then have nodef: "\<forall>p \<in> set (pipelines st). p_organizationId p = org \<longrightarrow> \<not> p_isDefault p"
      by (auto simp: filter_empty_conv)
    show ?thesis
    proof (cases "queryOne (order_by_asc tie p_createdAt ?own)")
      case inner: None
      then have "length (sort_key p_createdAt (sort_key tie ?own)) = 0"
        by (simp add: order_by_asc_def)
      then have "?own = []" unfolding length_sort by simp
      then have noown: "\<not> (\<exists>p \<in> set (pipelines st). p_organizationId p = org)"
        by (auto simp: filter_empty_conv)
      have "pipeline_getDefault st userId tie = Inl (NotFoundError ''No pipeline found for this organization'')"
        using None inner by (simp add: pipeline_getDefault_def caller)
      then show ?thesis using noown by auto
    next
      case inner: (Some p)
      have res: "pipeline_getDefault st userId tie = Inr p"
        using None inner by (simp add: pipeline_getDefault_def caller)
      from queryOne_order_by_asc [OF inner]
      have p: "p \<in> set (pipelines st)" "p_organizationId p = org"
        "\<forall>q \<in> set (pipelines st). p_organizationId q = org \<longrightarrow> p_createdAt p \<le> p_createdAt q"
        by auto
      show ?thesis using res p nodef by auto
    qed
  qed
qed

theorem pipeline_getDefault_result_witness:
  "userRow sample_db ''u-bob'' = Some ''org-globex''
   \<and> \<not> (\<exists>p \<in> set (pipelines sample_db). p_organizationId p = ''org-globex'' \<and> p_isDefault p)
   \<and> (\<exists>p \<in> set (pipelines sample_db). p_organizationId p = ''org-globex'')
   \<and> pipeline_getDefault sample_db ''u-bob'' (\<lambda>p. 0) = Inr globex_pipeline
   \<and> userRow sample_db ''u-alice'' = Some ''org-acme''
   \<and> (\<exists>p \<in> set (pipelines sample_db). p_organizationId p = ''org-acme'' \<and> p_isDefault p)
   \<and> pipeline_getDefault sample_db ''u-alice'' (\<lambda>p. 0) = Inr acme_pipeline"
proof -
  have h1: "userRow sample_db ''u-bob'' = Some ''org-globex''"
    by (simp add: userRow_def sample_defs)
  have h2: "\<forall>p \<in> set (pipelines sample_db). p_organizationId p = ''org-globex'' \<longrightarrow> \<not> p_isDefault p"
    by (simp add: sample_defs)
  have h3: "\<exists>p \<in> set (pipelines sample_db). p_organizationId p = ''org-globex''"
    by (simp add: sample_defs)
  have "\<exists>p \<in> set (pipelines sample_db). pipeline_getDefault sample_db ''u-bob'' (\<lambda>p. 0) = Inr p
                 \<and> p_organizationId p = ''org-globex''"
    using pipeline_getDefault_result [OF h1] h2 h3 by blast
  then have r1: "pipeline_getDefault sample_db ''u-bob'' (\<lambda>p. 0) = Inr globex_pipeline"
    by (auto simp: sample_defs)
  have h4: "userRow sample_db ''u-alice'' = Some ''org-acme''"
    by (simp add: userRow_def sample_defs)
  have h5: "\<exists>p \<in> set (pipelines sample_db). p_organizationId p = ''org-acme'' \<and> p_isDefault p"
    by (simp add: sample_defs)
  have "\<exists>p \<in> set (pipelines sample_db). pipeline_getDefault sample_db ''u-alice'' (\<lambda>p. 0) = Inr p
                 \<and> p_organizationId p = ''org-acme'' \<and> p_isDefault p"
    using pipeline_getDefault_result [OF h4] h5 by blast
  then have r2: "pipeline_getDefault sample_db ''u-alice'' (\<lambda>p. 0) = Inr acme_pipeline"
    by (auto simp: sample_defs)
  show ?thesis using h1 h2 h3 r1 h4 h5 r2 by blast
qed

section \<open>Tenant isolation\<close>

lemma sql_update_none:
  "\<forall>r \<in> set rows. \<not> wh r \<Longrightarrow> sql_update wh us rows = rows"
  by (simp add: sql_update_def map_idI)

lemma sql_returning_none:
  "\<forall>r \<in> set rows. \<not> wh r \<Longrightarrow> sql_returning wh us rows = []"
  by (simp add: sql_returning_def filter_empty_conv)

lemma filter_none: "\<forall>r \<in> set rows. \<not> wh r \<Longrightarrow> filter (\<lambda>r. \<not> wh r) rows = rows"
  by (simp add: filter_id_conv)

lemma customer_isolation:
  assumes caller: "userRow st userId = Some org"
      and foreign: "\<forall>c \<in> set (customers st). c_id c = rid \<longrightarrow> c_organizationId c \<noteq> org"
  shows "customer_getById st userId rid = Inl (NotFoundError ''Customer not found'')"
    and "customer_update st userId rid now body = (Inl (NotFoundError ''Customer not found''), st)"
    and "customer_delete st userId rid now = (Inl (NotFoundError ''Customer not found''), st)"
proof -
  have none: "\<forall>c \<in> set (customers st). \<not> customer_visible rid org c"
    using foreign by (auto simp: customer_visible_def)
  then have empty: "[c \<leftarrow> customers st. customer_visible rid org c] = []"
    by (simp add: filter_empty_conv)
  show "customer_getById st userId rid = Inl (NotFoundError ''Customer not found'')"
    by (simp add: customer_getById_def caller empty)
  show "customer_update st userId rid now body = (Inl (NotFoundError ''Customer not found''), st)"
    by (simp add: customer_update_def caller empty)
  show "customer_delete st userId rid now = (Inl (NotFoundError ''Customer not found''), st)"
    by (simp add: customer_delete_def caller sql_update_none [OF none] sql_returning_none [OF none])
qed

lemma pipeline_isolation:
  assumes caller: "userRow st userId = Some org"
      and foreign: "\<forall>p \<in> set (pipelines st). p_id p = rid \<longrightarrow> p_organizationId p \<noteq> org"
  shows "pipeline_getById st userId rid = Inl (NotFoundError ''Pipeline not found'')"
proof -
  have "[p \<leftarrow> pipelines st. p_id p = rid \<and> p_organizationId p = org] = []"
    using foreign by (auto simp: filter_empty_conv)
  then show ?thesis by (simp add: pipeline_getById_def caller)
qed

lemma deal_isolation:
  assumes caller: "userRow st userId = Some org"
      and foreign: "\<forall>d \<in> set (deals st). d_id d = rid \<longrightarrow>
                      (\<forall>c \<in> set (customers st). d_customerId d = c_id c \<longrightarrow> c_organizationId c \<noteq> org)"
  shows "deal_getById st userId rid = Inl (NotFoundError ''Deal not found'')"
    and "deal_update st userId rid now body = (Inl (NotFoundError ''Deal not found''), st)"
    and "deal_delete st userId rid = (Inl (NotFoundError ''Deal not found''), st)"
proof -
  have get: "[dealWithRelations d c u p. (d, c, u, p) \<leftarrow> deal_join st,
               g \<leftarrow> organizations st, c_organizationId c = o_id g,
               d_id d = rid \<and> o_id g = org \<and> c_deletedAt c = None] = []"
    using foreign by (auto simp: deal_join_def)
  show "deal_getById st userId rid = Inl (NotFoundError ''Deal not found'')"
    by (simp add: deal_getById_def caller get)
  have upd: "[d. d \<leftarrow> deals st, c \<leftarrow> customers st, d_customerId d = c_id c,
                 d_id d = rid \<and> c_organizationId c = org] = []"
    using foreign by auto
  show "deal_update st userId rid now body = (Inl (NotFoundError ''Deal not found''), st)"
    by (simp add: deal_update_def caller upd)
  have none: "\<forall>d \<in> set (deals st). \<not> (d_id d = rid \<and>
                list_ex (\<lambda>c. d_customerId d = c_id c \<and> c_organizationId c = org) (customers st))"
    using foreign by (auto simp: list_ex_iff)
  show "deal_delete st userId rid = (Inl (NotFoundError ''Deal not found''), st)"
    using none by (simp add: deal_delete_def caller Let_def filter_empty_conv filter_id_conv)
qed


lemma task_isolation:
  assumes caller: "userRow st userId = Some org"
      and foreign: "\<forall>t \<in> set (tasks st). t_id t = rid \<longrightarrow>
                      (\<forall>u \<in> set (users st). t_assigneeId t = u_id u \<longrightarrow> u_organizationId u \<noteq> org)"
  shows "task_getById st userId rid = Inl (NotFoundError ''Task not found'')"
    and "task_update st userId rid now body = (Inl (NotFoundError ''Task not found''), st)"
    and "task_delete st userId rid = (Inl (NotFoundError ''Task not found''), st)"
proof -
  have get: "[taskWithRelations t u c. (t, u, c) \<leftarrow> task_join st,
               t_id t = rid \<and> u_organizationId u = org] = []"
    using foreign by (auto simp: task_join_def)
  show "task_getById st userId rid = Inl (NotFoundError ''Task not found'')"
    by (simp add: task_getById_def caller get)
  have upd: "[t. t \<leftarrow> tasks st, u \<leftarrow> users st, t_assigneeId t = u_id u,
                 t_id t = rid \<and> u_organizationId u = org] = []"
    using foreign by auto
  show "task_update st userId rid now body = (Inl (NotFoundError ''Task not found''), st)"
    by (simp add: task_update_def caller upd)
  have none: "\<forall>t \<in> set (tasks st). \<not> (t_id t = rid \<and>
                list_ex (\<lambda>u. t_assigneeId t = u_id u \<and> u_organizationId u = org) (users st))"
    using foreign by (auto simp: list_ex_iff)
  show "task_delete st userId rid = (Inl (NotFoundError ''Task not found''), st)"
    using none by (simp add: task_delete_def caller Let_def filter_empty_conv filter_id_conv)
qed

lemma contact_isolation:
  assumes caller: "userRow st userId = Some org"
      and foreign: "\<forall>ch \<in> set (contact_history st). ch_id ch = rid \<longrightarrow>
                      (\<forall>c \<in> set (customers st). ch_customerId ch = c_id c \<longrightarrow> c_organizationId c \<noteq> org)"
  shows "contact_getById st userId rid = Inl (NotFoundError ''Contact history entry not found'')"
    and "contact_update st userId rid body = (Inl (NotFoundError ''Contact history entry not found''), st)"
    and "contact_delete st userId rid = (Inl (NotFoundError ''Contact history entry not found''), st)"
proof -
  have get: "[contactWithRelations ch c u. (ch, c, u) \<leftarrow> contact_join st,
               ch_id ch = rid \<and> c_organizationId c = org \<and> c_deletedAt c = None] = []"
    using foreign by (auto simp: contact_join_def)
  show "contact_getById st userId rid = Inl (NotFoundError ''Contact history entry not found'')"
    by (simp add: contact_getById_def caller get)
  have upd: "[ch. ch \<leftarrow> contact_history st, c \<leftarrow> customers st, ch_customerId ch = c_id c,
                  ch_id ch = rid \<and> c_organizationId c = org] = []"
    using foreign by auto
  show "contact_update st userId rid body = (Inl (NotFoundError ''Contact history entry not found''), st)"
    by (simp add: contact_update_def caller upd)
  have none: "\<forall>ch \<in> set (contact_history st). \<not> (ch_id ch = rid \<and>
                list_ex (\<lambda>c. ch_customerId ch = c_id c \<and> c_organizationId c = org) (customers st))"
    using foreign by (auto simp: list_ex_iff)
  show "contact_delete st userId rid = (Inl (NotFoundError ''Contact history entry not found''), st)"
    using none by (simp add: contact_delete_def caller Let_def filter_empty_conv filter_id_conv)
qed

text \<open>
  Claim C1. Let the caller's organization be resolved. For each of customer, pipeline,
  deal, task and contact-history entry: if every row with the addressed id belongs to
  another organization (a customer or pipeline by its own \<open>organizationId\<close>, a deal or
  contact-history entry through its customer, a task through its assignee), then
  get-by-id, update and delete (get-by-id alone for pipelines, which have no other
  operation by id) fail with NotFound, which carries none of the row's data, and leave
  the database as it was.
\<close>

theorem tenant_isolation:
  assumes caller: "userRow st userId = Some org"
  shows "((\<forall>c \<in> set (customers st). c_id c = rid \<longrightarrow> c_organizationId c \<noteq> org) \<longrightarrow>
            customer_getById st userId rid = Inl (NotFoundError ''Customer not found'')
          \<and> customer_update st userId rid now cbody = (Inl (NotFoundError ''Customer not found''), st)
          \<and> customer_delete st userId rid now = (Inl (NotFoundError ''Customer not found''), st))
       \<and> ((\<forall>p \<in> set (pipelines st). p_id p = rid \<longrightarrow> p_organizationId p \<noteq> org) \<longrightarrow>
            pipeline_getById st userId rid = Inl (NotFoundError ''Pipeline not found''))
       \<and> ((\<forall>d \<in> set (deals st). d_id d = rid \<longrightarrow>
              (\<forall>c \<in> set (customers st). d_customerId d = c_id c \<longrightarrow> c_organizationId c \<noteq> org)) \<longrightarrow>
            deal_getById st userId rid = Inl (NotFoundError ''Deal not found'')
          \<and> deal_update st userId rid now dbody = (Inl (NotFoundError ''Deal not found''), st)
          \<and> deal_delete st userId rid = (Inl (NotFoundError ''Deal not found''), st))
       \<and> ((\<forall>t \<in> set (tasks st). t_id t = rid \<longrightarrow>
              (\<forall>u \<in> set (users st). t_assigneeId t = u_id u \<longrightarrow> u_organizationId u \<noteq> org)) \<longrightarrow>
            task_getById st userId rid = Inl (NotFoundError ''Task not found'')
          \<and> task_update st userId rid now tbody = (Inl (NotFoundError ''Task not found''), st)
          \<and> task_delete st userId rid = (Inl (NotFoundError ''Task not found''), st))
       \<and> ((\<forall>ch \<in> set (contact_history st). ch_id ch = rid \<longrightarrow>
              (\<forall>c \<in> set (customers st). ch_customerId ch = c_id c \<longrightarrow> c_organizationId c \<noteq> org)) \<longrightarrow>
            contact_getById st userId rid = Inl (NotFoundError ''Contact history entry not found'')
          \<and> contact_update st userId rid hbody
               = (Inl (NotFoundError ''Contact history entry not found''), st)
          \<and> contact_delete st userId rid
               = (Inl (NotFoundError ''Contact history entry not found''), st))"
proof (intro conjI impI)
qed (simp_all only: customer_isolation [OF caller] pipeline_isolation [OF caller]
       deal_isolation [OF caller] task_isolation [OF caller] contact_isolation [OF caller])

theorem tenant_isolation_witness:
  "userRow sample_db ''u-alice'' = Some ''org-acme''
   \<and> (\<exists>c \<in> set (customers sample_db). c_id c = ''c-gary'' \<and> c_organizationId c = ''org-globex'')
   \<and> customer_getById sample_db ''u-alice'' ''c-gary'' = Inl (NotFoundError ''Customer not found'')
   \<and> customer_update sample_db ''u-alice'' ''c-gary'' 50 (empty_customer_body\<lparr>cb_firstName := Some ''Eve''\<rparr>)
        = (Inl (NotFoundError ''Customer not found''), sample_db)
   \<and> customer_delete sample_db ''u-alice'' ''c-gary'' 50
        = (Inl (NotFoundError ''Customer not found''), sample_db)
   \<and> (\<exists>p \<in> set (pipelines sample_db). p_id p = ''p-globex'' \<and> p_organizationId p = ''org-globex'')
   \<and> pipeline_getById sample_db ''u-alice'' ''p-globex'' = Inl (NotFoundError ''Pipeline not found'')
   \<and> (\<exists>d \<in> set (deals sample_db). d_id d = ''d-globex'')
   \<and> deal_getById sample_db ''u-alice'' ''d-globex'' = Inl (NotFoundError ''Deal not found'')
   \<and> deal_update sample_db ''u-alice'' ''d-globex'' 50 (empty_deal_body\<lparr>du_title := Some ''Mine''\<rparr>)
        = (Inl (NotFoundError ''Deal not found''), sample_db)
   \<and> deal_delete sample_db ''u-alice'' ''d-globex'' = (Inl (NotFoundError ''Deal not found''), sample_db)
   \<and> (\<exists>t \<in> set (tasks sample_db). t_id t = ''t-globex'')
   \<and> task_getById sample_db ''u-alice'' ''t-globex'' = Inl (NotFoundError ''Task not found'')
   \<and> task_update sample_db ''u-alice'' ''t-globex'' 50 (empty_task_body\<lparr>tu_title := Some ''Mine''\<rparr>)
        = (Inl (NotFoundError ''Task not found''), sample_db)
   \<and> task_delete sample_db ''u-alice'' ''t-globex'' = (Inl (NotFoundError ''Task not found''), sample_db)
   \<and> (\<exists>ch \<in> set (contact_history sample_db). ch_id ch = ''h-4'')
   \<and> contact_getById sample_db ''u-alice'' ''h-4''
        = Inl (NotFoundError ''Contact history entry not found'')
   \<and> contact_update sample_db ''u-alice'' ''h-4'' (empty_contact_body\<lparr>cu_body := Some ''x''\<rparr>)
        = (Inl (NotFoundError ''Contact history entry not found''), sample_db)
   \<and> contact_delete sample_db ''u-alice'' ''h-4''
        = (Inl (NotFoundError ''Contact history entry not found''), sample_db)"
proof -
  let ?cb = "empty_customer_body\<lparr>cb_firstName := Some ''Eve''\<rparr>"
  let ?db = "empty_deal_body\<lparr>du_title := Some ''Mine''\<rparr>"
  let ?tb = "empty_task_body\<lparr>tu_title := Some ''Mine''\<rparr>"
  let ?hb = "empty_contact_body\<lparr>cu_body := Some ''x''\<rparr>"
  have caller: "userRow sample_db ''u-alice'' = Some ''org-acme''"
    by (simp add: userRow_def sample_defs)
  have c: "\<forall>c \<in> set (customers sample_db). c_id c = ''c-gary'' \<longrightarrow> c_organizationId c \<noteq> ''org-acme''"
    by (simp add: sample_defs)
  have p: "\<forall>p \<in> set (pipelines sample_db). p_id p = ''p-globex'' \<longrightarrow> p_organizationId p \<noteq> ''org-acme''"
    by (simp add: sample_defs)
  have d: "\<forall>d \<in> set (deals sample_db). d_id d = ''d-globex'' \<longrightarrow>
             (\<forall>c \<in> set (customers sample_db). d_customerId d = c_id c \<longrightarrow> c_organizationId c \<noteq> ''org-acme'')"
    by (simp add: sample_defs)
  have t: "\<forall>t \<in> set (tasks sample_db). t_id t = ''t-globex'' \<longrightarrow>
             (\<forall>u \<in> set (users sample_db). t_assigneeId t = u_id u \<longrightarrow> u_organizationId u \<noteq> ''org-acme'')"
    by (simp add: sample_defs)
  have h: "\<forall>ch \<in> set (contact_history sample_db). ch_id ch = ''h-4'' \<longrightarrow>
             (\<forall>c \<in> set (customers sample_db). ch_customerId ch = c_id c \<longrightarrow> c_organizationId c \<noteq> ''org-acme'')"
    by (simp add: sample_defs)
  have ex: "\<exists>c \<in> set (customers sample_db). c_id c = ''c-gary'' \<and> c_organizationId c = ''org-globex''"
    "\<exists>p \<in> set (pipelines sample_db). p_id p = ''p-globex'' \<and> p_organizationId p = ''org-globex''"
    "\<exists>d \<in> set (deals sample_db). d_id d = ''d-globex''"
    "\<exists>t \<in> set (tasks sample_db). t_id t = ''t-globex''"
    "\<exists>ch \<in> set (contact_history sample_db). ch_id ch = ''h-4''"
    by (simp_all add: sample_defs)
  note iso = tenant_isolation [OF caller, where now = 50 and cbody = ?cb and dbody = ?db
                                and tbody = ?tb and hbody = ?hb]
  note C = iso [of "''c-gary''", THEN conjunct1, THEN mp, OF c]
  note P = iso [of "''p-globex''", THEN conjunct2, THEN conjunct1, THEN mp, OF p]
  note D = iso [of "''d-globex''", THEN conjunct2, THEN conjunct2, THEN conjunct1, THEN mp, OF d]
  note T = iso [of "''t-globex''", THEN conjunct2, THEN conjunct2, THEN conjunct2,
                THEN conjunct1, THEN mp, OF t]
  note H = iso [of "''h-4''", THEN conjunct2, THEN conjunct2, THEN conjunct2, THEN conjunct2,
                THEN mp, OF h]
  show ?thesis
    by (intro conjI) (simp_all only: caller ex C P D T H)
qed

section \<open>Stage membership on deal creation\<close>

lemma queryOne_filter_ex:
  assumes "\<exists>r \<in> set rows. P r"
  obtains r where "queryOne (filter P rows) = Some r" "r \<in> set rows" "P r"
proof -
  from assms have "filter P rows \<noteq> []" by (simp add: filter_empty_conv)
  then obtain r where r: "queryOne (filter P rows) = Some r"
    by (cases "filter P rows") simp_all
  with queryOne_filter_Some [OF r] that show thesis by blast
qed

lemma stageExists_iff: "stageExists stages stageId \<longleftrightarrow> stageId \<in> stage_id ` set stages"
  by (auto simp: stageExists_def list_ex_iff)

text \<open>
  Claim C3, amended. When the caller's organization is resolved, the request's customer
  is a customer of that organization that is not soft-deleted and its pipeline is a
  pipeline of that organization, and the request's \<open>stageId\<close> is not the id of any stage
  of that pipeline, deal creation fails with ValidationError and the database is
  unchanged: no deal row is written.
\<close>

theorem deal_create_invalid_stage:
  assumes caller: "userRow st userId = Some org"
      and customer: "\<exists>c \<in> set (customers st). customer_visible (dc_customerId body) org c"
      and pipeline: "\<exists>p \<in> set (pipelines st). p_id p = dc_pipelineId body \<and> p_organizationId p = org"
      and stage: "\<forall>p \<in> set (pipelines st). p_id p = dc_pipelineId body \<and> p_organizationId p = org
                    \<longrightarrow> dc_stageId body \<notin> stage_id ` set (p_stages p)"
  shows "deal_create st userId now newId body
           = (Inl (ValidationError ''Invalid stage ID for this pipeline''), st)"
proof -
  from customer obtain c
    where c: "queryOne [c \<leftarrow> customers st. customer_visible (dc_customerId body) org c] = Some c"
    by (rule queryOne_filter_ex)
  from pipeline obtain p
    where p: "queryOne [p \<leftarrow> pipelines st. p_id p = dc_pipelineId body \<and> p_organizationId p = org]
                = Some p"
      and "p \<in> set (pipelines st)" "p_id p = dc_pipelineId body \<and> p_organizationId p = org"
    by (rule queryOne_filter_ex)
  with stage have "\<not> stageExists (p_stages p) (dc_stageId body)"
    unfolding stageExists_iff by blast
  then show ?thesis
    by (simp add: deal_create_def caller c p)
qed

theorem deal_create_invalid_stage_witness:
  "userRow sample_db ''u-alice'' = Some ''org-acme''
   \<and> (\<exists>c \<in> set (customers sample_db).
         customer_visible (dc_customerId (acme_deal_request\<lparr>dc_stageId := ''g1''\<rparr>)) ''org-acme'' c)
   \<and> (\<exists>p \<in> set (pipelines sample_db).
         p_id p = dc_pipelineId (acme_deal_request\<lparr>dc_stageId := ''g1''\<rparr>)
         \<and> p_organizationId p = ''org-acme'')
   \<and> deal_create sample_db ''u-alice'' 50 ''d-new'' (acme_deal_request\<lparr>dc_stageId := ''g1''\<rparr>)
        = (Inl (ValidationError ''Invalid stage ID for this pipeline''), sample_db)"
proof -
  let ?body = "acme_deal_request\<lparr>dc_stageId := ''g1''\<rparr>"
  have caller: "userRow sample_db ''u-alice'' = Some ''org-acme''"
    by (simp add: userRow_def sample_defs)
  have customer: "\<exists>c \<in> set (customers sample_db). customer_visible (dc_customerId ?body) ''org-acme'' c"
    by (simp add: customer_visible_def acme_deal_request_def sample_defs)
  have pipeline: "\<exists>p \<in> set (pipelines sample_db).
                    p_id p = dc_pipelineId ?body \<and> p_organizationId p = ''org-acme''"
    by (simp add: acme_deal_request_def sample_defs)
  have stage: "\<forall>p \<in> set (pipelines sample_db).
                 p_id p = dc_pipelineId ?body \<and> p_organizationId p = ''org-acme''
                 \<longrightarrow> dc_stageId ?body \<notin> stage_id ` set (p_stages p)"
    by (simp add: acme_deal_request_def sample_defs)
  from deal_create_invalid_stage [OF caller customer pipeline stage, of 50 "''d-new''"]
  show ?thesis
    by (intro conjI) (simp_all only: caller customer pipeline)
qed

text \<open>
  Claim C3 as stated, for every customer of the caller's organization, fails for a
  soft-deleted one: the customer guard of create reads \<open>"deletedAt" IS NULL\<close> and comes
  before the stage check. Jane is a soft-deleted customer of Acme, the Acme pipeline has
  no stage \<open>g1\<close>, and Alice's request for Jane with that stage fails with NotFound
  ("Customer not found"), not with ValidationError; nothing is written.
\<close>

theorem deal_create_deleted_customer:
  "userRow sample_db ''u-alice'' = Some ''org-acme''
   \<and> (\<exists>c \<in> set (customers sample_db).
         c_id c = ''c-jane'' \<and> c_organizationId c = ''org-acme'' \<and> c_deletedAt c = Some 12)
   \<and> (\<exists>p \<in> set (pipelines sample_db).
         p_id p = ''p-acme'' \<and> p_organizationId p = ''org-acme''
         \<and> ''g1'' \<notin> stage_id ` set (p_stages p))
   \<and> deal_create sample_db ''u-alice'' 50 ''d-new''
         (acme_deal_request\<lparr>dc_customerId := ''c-jane'', dc_stageId := ''g1''\<rparr>)
       = (Inl (NotFoundError ''Customer not found''), sample_db)
   \<and> fst (deal_create sample_db ''u-alice'' 50 ''d-new''
              (acme_deal_request\<lparr>dc_customerId := ''c-jane'', dc_stageId := ''g1''\<rparr>))
       \<noteq> Inl (ValidationError ''Invalid stage ID for this pipeline'')"
  by (simp add: deal_create_def userRow_def sample_defs acme_deal_request_def
        customer_visible_def Let_def)

section \<open>Stage membership on deal update\<close>

lemma deal_update_invalid_stage:
  assumes caller: "userRow st userId = Some org"
      and existing: "queryOne [d. d \<leftarrow> deals st, c \<leftarrow> customers st, d_customerId d = c_id c,
                                  d_id d = rid \<and> c_organizationId c = org] = Some existing"
      and pipeline: "queryOne [p \<leftarrow> pipelines st. p_id p = d_pipelineId existing] = Some pipeline"
      and stage: "du_stageId body = Some stageId" "stageId \<noteq> []"
                 "stageId \<notin> stage_id ` set (p_stages pipeline)"
  shows "deal_update st userId rid now body
           = (Inl (ValidationError ''Invalid stage ID for this pipeline''), st)"
  using stage by (simp add: deal_update_def caller existing pipeline stageExists_iff)

text \<open>
  Claim C4 says that an update whose \<open>stageId\<close> is taken from another organization's
  pipeline and is not a stage of the deal's own pipeline fails with ValidationError and
  leaves the deal's stage as it was. Update guards the membership test with
  \<open>if (stageId)\<close> and writes the column under \<open>if (stageId !== undefined)\<close>, so the empty
  string passes unchecked. In the sample database the empty string is the id of a stage
  of the Globex pipeline and of no stage of the Acme pipeline; Alice's update of the Acme
  deal with that \<open>stageId\<close> succeeds and stores it, while create rejects the same
  \<open>stageId\<close> with ValidationError.
\<close>

theorem deal_update_empty_stageId:
  "[] \<in> stage_id ` set (p_stages globex_pipeline)
   \<and> [] \<notin> stage_id ` set (p_stages acme_pipeline)
   \<and> deal_update sample_db ''u-alice'' ''d-acme'' 50 (empty_deal_body\<lparr>du_stageId := Some []\<rparr>)
       = (Inr (Some (dealWithRelations (acme_deal\<lparr>d_stageId := [], d_updatedAt := 50\<rparr>)
                       john alice acme_pipeline)),
          sample_db\<lparr>deals := [acme_deal\<lparr>d_stageId := [], d_updatedAt := 50\<rparr>, globex_deal]\<rparr>)
   \<and> deal_create sample_db ''u-alice'' 50 ''d-new'' (acme_deal_request\<lparr>dc_stageId := []\<rparr>)
       = (Inl (ValidationError ''Invalid stage ID for this pipeline''), sample_db)"
  by (simp add: deal_update_def deal_updates_def push_if_def sql_update_def sql_returning_def
        sql_set_def deal_fetch_def deal_join_def dealWithRelations_def stageExists_def
        userRow_def sample_defs empty_body_defs deal_create_def acme_deal_request_def
        customer_visible_def)

section \<open>Completion time of tasks\<close>

text \<open>
  Claim C2 says that every task produced by create or update has \<open>completedAt\<close> set
  exactly when its status is COMPLETE. Create accepts a status and always inserts
  \<open>NULL\<close> as \<open>completedAt\<close>: Alice's request with status COMPLETE stores a task whose
  status is COMPLETE and whose \<open>completedAt\<close> is null.
\<close>

theorem task_create_complete_without_completedAt:
  "task_create sample_db ''u-alice'' 50 ''t-new'' (acme_task_request\<lparr>tc_status := Some COMPLETE\<rparr>)
     = (Inr (Some (taskWithRelations
                     \<lparr>t_id = ''t-new'', t_title = ''Send offer'', t_description = None,
                      t_priority = MEDIUM, t_status = COMPLETE, t_dueDate = None,
                      t_assigneeId = ''u-alice'', t_relatedCustomerId = None,
                      t_relatedDealId = None, t_isRecurring = False, t_recurrenceRule = None,
                      t_timeSpent = None, t_completedAt = None, t_createdAt = 50,
                      t_updatedAt = 50\<rparr>
                     alice None)),
        sample_db\<lparr>tasks :=
          [acme_task, globex_task,
           \<lparr>t_id = ''t-new'', t_title = ''Send offer'', t_description = None,
            t_priority = MEDIUM, t_status = COMPLETE, t_dueDate = None,
            t_assigneeId = ''u-alice'', t_relatedCustomerId = None,
            t_relatedDealId = None, t_isRecurring = False, t_recurrenceRule = None,
            t_timeSpent = None, t_completedAt = None, t_createdAt = 50,
            t_updatedAt = 50\<rparr>]\<rparr>)"
  by (simp add: task_create_def task_fetch_def task_join_def taskWithRelations_def left_join_def
        str_or_null_def undef_or_null_def userRow_def sample_defs acme_task_request_def
        customer_visible_def Let_def)

section \<open>Updates without fields\<close>

lemma queryOne_ex:
  assumes "rows \<noteq> []"
  obtains r where "queryOne rows = Some r" "r \<in> set rows"
  using assms by (cases rows) auto

lemma customer_update_without_fields:
  assumes caller: "userRow st userId = Some org"
      and existing: "\<exists>c \<in> set (customers st). customer_visible rid org c"
  shows "\<exists>r \<in> set (customers st). c_id r = rid
           \<and> customer_update st userId rid now empty_customer_body = (Inr (Some r), st)"
proof -
  from existing obtain c
    where c: "queryOne [c \<leftarrow> customers st. customer_visible rid org c] = Some c"
      and "c \<in> set (customers st)" "customer_visible rid org c"
    by (rule queryOne_filter_ex)
  then have "\<exists>r \<in> set (customers st). c_id r = rid"
    by (auto simp: customer_visible_def)
  then obtain r where r: "queryOne [c \<leftarrow> customers st. c_id c = rid] = Some r"
      and "r \<in> set (customers st)" "c_id r = rid"
    by (rule queryOne_filter_ex)
  moreover have "customer_update st userId rid now empty_customer_body
                   = (Inr (queryOne [c \<leftarrow> customers st. c_id c = rid]), st)"
    by (simp add: customer_update_def caller c customer_updates_def push_if_def
          empty_customer_body_def)
  ultimately show ?thesis by auto
qed

lemma deal_update_without_fields:
  assumes caller: "userRow st userId = Some org"
      and existing: "\<exists>d \<in> set (deals st). d_id d = rid
                       \<and> (\<exists>c \<in> set (customers st). d_customerId d = c_id c \<and> c_organizationId c = org)"
      and owner: "\<forall>d \<in> set (deals st). d_id d = rid \<longrightarrow> (\<exists>u \<in> set (users st). d_ownerId d = u_id u)"
      and pipeline: "\<forall>d \<in> set (deals st). d_id d = rid \<longrightarrow> (\<exists>p \<in> set (pipelines st). d_pipelineId d = p_id p)"
  shows "\<exists>r \<in> set (deals st). d_id r = rid
           \<and> (\<exists>rel. deal_update st userId rid now empty_deal_body = (Inr (Some (r, rel)), st))"
proof -
  let ?guard = "[d. d \<leftarrow> deals st, c \<leftarrow> customers st, d_customerId d = c_id c,
                    d_id d = rid \<and> c_organizationId c = org]"
  let ?rows = "[dealWithRelations d c u p. (d, c, u, p) \<leftarrow> deal_join st, d_id d = rid]"
  from existing have "?guard \<noteq> []" by auto
  then obtain e where e: "queryOne ?guard = Some e"
    by (rule queryOne_ex)
  from existing owner pipeline have "?rows \<noteq> []"
    by (fastforce simp: deal_join_def)
  then obtain row where row: "queryOne ?rows = Some row" "row \<in> set ?rows"
    by (rule queryOne_ex)
  then obtain r rel where rr: "row = (r, rel)" "r \<in> set (deals st)" "d_id r = rid"
    by (auto simp: deal_join_def dealWithRelations_def)
  have "deal_update st userId rid now empty_deal_body = (Inr (Some row), st)"
    using row(1)
    by (simp add: deal_update_def caller e deal_updates_def push_if_def empty_deal_body_def
          deal_fetch_def)
  with rr show ?thesis by auto
qed


lemma task_update_without_fields:
  assumes caller: "userRow st userId = Some org"
      and existing: "\<exists>t \<in> set (tasks st). t_id t = rid
                       \<and> (\<exists>u \<in> set (users st). t_assigneeId t = u_id u \<and> u_organizationId u = org)"
  shows "\<exists>r \<in> set (tasks st). t_id r = rid
           \<and> (\<exists>rel. task_update st userId rid now (empty_task_body\<lparr>tu_completedAt := x\<rparr>)
                       = (Inr (Some (r, rel)), st))"
proof -
  let ?guard = "[t. t \<leftarrow> tasks st, u \<leftarrow> users st, t_assigneeId t = u_id u,
                    t_id t = rid \<and> u_organizationId u = org]"
  let ?rows = "[taskWithRelations t u c. (t, u, c) \<leftarrow> task_join st, t_id t = rid]"
  from existing have "?guard \<noteq> []" by auto
  then obtain e where e: "queryOne ?guard = Some e"
    by (rule queryOne_ex)
  have lj: "\<And>rows :: customer list. left_join rows \<noteq> []"
    by (simp add: left_join_def)
  from existing have "?rows \<noteq> []"
    by (fastforce simp: task_join_def lj)
  then obtain row where row: "queryOne ?rows = Some row" "row \<in> set ?rows"
    by (rule queryOne_ex)
  then obtain r rel where rr: "row = (r, rel)" "r \<in> set (tasks st)" "t_id r = rid"
    by (auto simp: task_join_def taskWithRelations_def)
  have "task_update st userId rid now (empty_task_body\<lparr>tu_completedAt := x\<rparr>)
          = (Inr (Some row), st)"
    using row(1)
    by (simp add: task_update_def caller e task_updates_def push_if_def empty_task_body_def
          task_fetch_def str_or_null_def undef_or_null_def)
  with rr show ?thesis by auto
qed

lemma contact_update_without_fields:
  assumes caller: "userRow st userId = Some org"
      and existing: "\<exists>ch \<in> set (contact_history st). ch_id ch = rid
                       \<and> (\<exists>c \<in> set (customers st). ch_customerId ch = c_id c \<and> c_organizationId c = org)"
      and creator: "\<forall>ch \<in> set (contact_history st). ch_id ch = rid \<longrightarrow>
                      (\<exists>u \<in> set (users st). ch_createdBy ch = u_id u)"
  shows "\<exists>r \<in> set (contact_history st). ch_id r = rid
           \<and> (\<exists>rel. contact_update st userId rid empty_contact_body = (Inr (Some (r, rel)), st))"
proof -
  let ?guard = "[ch. ch \<leftarrow> contact_history st, c \<leftarrow> customers st, ch_customerId ch = c_id c,
                     ch_id ch = rid \<and> c_organizationId c = org]"
  let ?rows = "[contactWithRelations ch c u. (ch, c, u) \<leftarrow> contact_join st, ch_id ch = rid]"
  from existing have "?guard \<noteq> []" by auto
  then obtain e where e: "queryOne ?guard = Some e"
    by (rule queryOne_ex)
  from existing creator have "?rows \<noteq> []"
    by (fastforce simp: contact_join_def)
  then obtain row where row: "queryOne ?rows = Some row" "row \<in> set ?rows"
    by (rule queryOne_ex)
  then obtain r rel where rr: "row = (r, rel)" "r \<in> set (contact_history st)" "ch_id r = rid"
    by (auto simp: contact_join_def contactWithRelations_def)
  have "contact_update st userId rid empty_contact_body = (Inr (Some row), st)"
    using row(1)
    by (simp add: contact_update_def caller e contact_updates_def push_if_def
          empty_contact_body_def contact_fetch_def)
  with rr show ?thesis by auto
qed

text \<open>
  Claim C6. Let the caller's organization be resolved and let the update body carry no
  updatable field (for tasks, whatever \<open>completedAt\<close> it carries, which update never
  writes). For a customer, deal, task or contact-history entry that passes the tenant
  guard of its update (for deals and contact-history entries the rows the response join
  needs exist, as the foreign keys of the schema require), the update succeeds, the
  database after the call is the database before it, and the row returned is a row of
  that unchanged table with the addressed id.
\<close>

theorem update_without_fields:
  assumes caller: "userRow st userId = Some org"
  shows "((\<exists>c \<in> set (customers st). customer_visible rid org c) \<longrightarrow>
            (\<exists>r \<in> set (customers st). c_id r = rid
               \<and> customer_update st userId rid now empty_customer_body = (Inr (Some r), st)))
       \<and> ((\<exists>d \<in> set (deals st). d_id d = rid
               \<and> (\<exists>c \<in> set (customers st). d_customerId d = c_id c \<and> c_organizationId c = org))
            \<and> (\<forall>d \<in> set (deals st). d_id d = rid \<longrightarrow> (\<exists>u \<in> set (users st). d_ownerId d = u_id u))
            \<and> (\<forall>d \<in> set (deals st). d_id d = rid \<longrightarrow>
                  (\<exists>p \<in> set (pipelines st). d_pipelineId d = p_id p)) \<longrightarrow>
            (\<exists>r \<in> set (deals st). d_id r = rid
               \<and> (\<exists>rel. deal_update st userId rid now empty_deal_body = (Inr (Some (r, rel)), st))))
       \<and> ((\<exists>t \<in> set (tasks st). t_id t = rid
               \<and> (\<exists>u \<in> set (users st). t_assigneeId t = u_id u \<and> u_organizationId u = org)) \<longrightarrow>
            (\<exists>r \<in> set (tasks st). t_id r = rid
               \<and> (\<exists>rel. task_update st userId rid now (empty_task_body\<lparr>tu_completedAt := x\<rparr>)
                           = (Inr (Some (r, rel)), st))))
       \<and> ((\<exists>ch \<in> set (contact_history st). ch_id ch = rid
               \<and> (\<exists>c \<in> set (customers st). ch_customerId ch = c_id c \<and> c_organizationId c = org))
            \<and> (\<forall>ch \<in> set (contact_history st). ch_id ch = rid \<longrightarrow>
                  (\<exists>u \<in> set (users st). ch_createdBy ch = u_id u)) \<longrightarrow>
            (\<exists>r \<in> set (contact_history st). ch_id r = rid
               \<and> (\<exists>rel. contact_update st userId rid empty_contact_body
                           = (Inr (Some (r, rel)), st))))"
proof (intro conjI impI)
  assume "\<exists>c \<in> set (customers st). customer_visible rid org c"
  then show "\<exists>r \<in> set (customers st). c_id r = rid
               \<and> customer_update st userId rid now empty_customer_body = (Inr (Some r), st)"
    by (rule customer_update_without_fields [OF caller])
next
  assume "(\<exists>d \<in> set (deals st). d_id d = rid
               \<and> (\<exists>c \<in> set (customers st). d_customerId d = c_id c \<and> c_organizationId c = org))
            \<and> (\<forall>d \<in> set (deals st). d_id d = rid \<longrightarrow> (\<exists>u \<in> set (users st). d_ownerId d = u_id u))
            \<and> (\<forall>d \<in> set (deals st). d_id d = rid \<longrightarrow>
                  (\<exists>p \<in> set (pipelines st). d_pipelineId d = p_id p))"
  then show "\<exists>r \<in> set (deals st). d_id r = rid
               \<and> (\<exists>rel. deal_update st userId rid now empty_deal_body = (Inr (Some (r, rel)), st))"
    using deal_update_without_fields [OF caller] by blast
next
  assume "\<exists>t \<in> set (tasks st). t_id t = rid
               \<and> (\<exists>u \<in> set (users st). t_assigneeId t = u_id u \<and> u_organizationId u = org)"
  then show "\<exists>r \<in> set (tasks st). t_id r = rid
               \<and> (\<exists>rel. task_update st userId rid now (empty_task_body\<lparr>tu_completedAt := x\<rparr>)
                           = (Inr (Some (r, rel)), st))"
    by (rule task_update_without_fields [OF caller])
next
  assume "(\<exists>ch \<in> set (contact_history st). ch_id ch = rid
               \<and> (\<exists>c \<in> set (customers st). ch_customerId ch = c_id c \<and> c_organizationId c = org))
            \<and> (\<forall>ch \<in> set (contact_history st). ch_id ch = rid \<longrightarrow>
                  (\<exists>u \<in> set (users st). ch_createdBy ch = u_id u))"
  then show "\<exists>r \<in> set (contact_history st). ch_id r = rid
               \<and> (\<exists>rel. contact_update st userId rid empty_contact_body
                           = (Inr (Some (r, rel)), st))"
    using contact_update_without_fields [OF caller] by blast
qed


theorem update_without_fields_witness:
  "userRow sample_db ''u-alice'' = Some ''org-acme''
   \<and> (\<exists>c \<in> set (customers sample_db). customer_visible ''c-john'' ''org-acme'' c)
   \<and> (\<exists>r \<in> set (customers sample_db). c_id r = ''c-john''
         \<and> customer_update sample_db ''u-alice'' ''c-john'' 50 empty_customer_body
             = (Inr (Some r), sample_db))
   \<and> (\<exists>d \<in> set (deals sample_db). d_id d = ''d-acme''
         \<and> (\<exists>c \<in> set (customers sample_db).
               d_customerId d = c_id c \<and> c_organizationId c = ''org-acme''))
   \<and> (\<exists>r \<in> set (deals sample_db). d_id r = ''d-acme''
         \<and> (\<exists>rel. deal_update sample_db ''u-alice'' ''d-acme'' 50 empty_deal_body
                     = (Inr (Some (r, rel)), sample_db)))
   \<and> (\<exists>t \<in> set (tasks sample_db). t_id t = ''t-acme''
         \<and> (\<exists>u \<in> set (users sample_db).
               t_assigneeId t = u_id u \<and> u_organizationId u = ''org-acme''))
   \<and> (\<exists>r \<in> set (tasks sample_db). t_id r = ''t-acme''
         \<and> (\<exists>rel. task_update sample_db ''u-alice'' ''t-acme'' 50
                       (empty_task_body\<lparr>tu_completedAt := Some (Some 49)\<rparr>)
                     = (Inr (Some (r, rel)), sample_db)))
   \<and> (\<exists>ch \<in> set (contact_history sample_db). ch_id ch = ''h-1''
         \<and> (\<exists>c \<in> set (customers sample_db).
               ch_customerId ch = c_id c \<and> c_organizationId c = ''org-acme''))
   \<and> (\<exists>r \<in> set (contact_history sample_db). ch_id r = ''h-1''
         \<and> (\<exists>rel. contact_update sample_db ''u-alice'' ''h-1'' empty_contact_body
                     = (Inr (Some (r, rel)), sample_db)))"
proof -
  have caller: "userRow sample_db ''u-alice'' = Some ''org-acme''"
    by (simp add: userRow_def sample_defs)
  have c: "\<exists>c \<in> set (customers sample_db). customer_visible ''c-john'' ''org-acme'' c"
    by (simp add: customer_visible_def sample_defs)
  have d: "\<exists>d \<in> set (deals sample_db). d_id d = ''d-acme''
             \<and> (\<exists>c \<in> set (customers sample_db).
                   d_customerId d = c_id c \<and> c_organizationId c = ''org-acme'')"
    by (simp add: sample_defs)
  have d_owner: "\<forall>d \<in> set (deals sample_db). d_id d = ''d-acme'' \<longrightarrow>
                   (\<exists>u \<in> set (users sample_db). d_ownerId d = u_id u)"
    by (simp add: sample_defs)
  have d_pipeline: "\<forall>d \<in> set (deals sample_db). d_id d = ''d-acme'' \<longrightarrow>
                      (\<exists>p \<in> set (pipelines sample_db). d_pipelineId d = p_id p)"
    by (simp add: sample_defs)
  have t: "\<exists>t \<in> set (tasks sample_db). t_id t = ''t-acme''
             \<and> (\<exists>u \<in> set (users sample_db).
                   t_assigneeId t = u_id u \<and> u_organizationId u = ''org-acme'')"
    by (simp add: sample_defs)
  have h: "\<exists>ch \<in> set (contact_history sample_db). ch_id ch = ''h-1''
             \<and> (\<exists>c \<in> set (customers sample_db).
                   ch_customerId ch = c_id c \<and> c_organizationId c = ''org-acme'')"
    by (simp add: sample_defs)
  have h_creator: "\<forall>ch \<in> set (contact_history sample_db). ch_id ch = ''h-1'' \<longrightarrow>
                     (\<exists>u \<in> set (users sample_db). ch_createdBy ch = u_id u)"
    by (simp add: sample_defs)
  note noop = update_without_fields [OF caller, where now = 50 and x = "Some (Some 49)"]
  note C = noop [of "''c-john''", THEN conjunct1, THEN mp, OF c]
  note D = noop [of "''d-acme''", THEN conjunct2, THEN conjunct1, THEN mp,
                 OF conjI [OF d conjI [OF d_owner d_pipeline]]]
  note T = noop [of "''t-acme''", THEN conjunct2, THEN conjunct2, THEN conjunct1, THEN mp, OF t]
  note H = noop [of "''h-1''", THEN conjunct2, THEN conjunct2, THEN conjunct2, THEN mp,
                 OF conjI [OF h h_creator]]
  show ?thesis
    by (intro conjI) (rule caller c d t h C D T H)+
qed

section \<open>Facts about the \<open>SET\<close> clause\<close>

lemma sql_set_append: "sql_set (us @ vs) r = sql_set vs (sql_set us r)"
  by (simp add: sql_set_def)

lemma sql_set_single: "sql_set [g] r = g r"
  by (simp add: sql_set_def)

lemma sql_set_Cons: "sql_set (g # vs) r = sql_set vs (g r)"
  by (simp add: sql_set_def)

lemma sql_set_preserves:
  assumes "\<And>f r. f \<in> set us \<Longrightarrow> sel (f r) = sel r"
  shows "sel (sql_set us r) = sel r"
  using assms unfolding sql_set_def
  by (induction us arbitrary: r) simp_all

lemma sql_set_assigned:
  assumes "\<And>f r. f \<in> set vs \<Longrightarrow> sel (f r) = sel r"
  shows "sel (sql_set (us @ [g] @ vs) r) = sel (g (sql_set us r))"
proof -
  have "sel (sql_set vs (g (sql_set us r))) = sel (g (sql_set us r))"
    using assms by (rule sql_set_preserves)
  then show ?thesis
    by (simp add: sql_set_append sql_set_Cons)
qed

lemma in_push_if: "f \<in> set (push_if x g) \<longleftrightarrow> (\<exists>v. x = Some v \<and> f = g v)"
  by (cases x) (auto simp: push_if_def)

lemma push_if_Some: "push_if (Some v) g = [g v]"
  by (simp add: push_if_def)

lemma push_if_None: "push_if None g = []"
  by (simp add: push_if_def)

section \<open>Probability of a deal\<close>

lemma deal_updates_id:
  "d_id (sql_set (deal_updates body @ [\<lambda>d. d\<lparr>d_updatedAt := now\<rparr>]) d) = d_id d"
  by (rule sql_set_preserves) (auto simp: deal_updates_def in_push_if)

lemma deal_updates_probability:
  assumes "du_probability body = Some p"
  shows "d_probability (sql_set (deal_updates body @ [\<lambda>d. d\<lparr>d_updatedAt := now\<rparr>]) d) = p"
proof -
  let ?us = "push_if (du_title body) (\<lambda>v d. d\<lparr>d_title := v\<rparr>) @
     push_if (du_value body) (\<lambda>v d. d\<lparr>d_value := v\<rparr>) @
     push_if (du_currency body) (\<lambda>v d. d\<lparr>d_currency := v\<rparr>) @
     push_if (du_expectedCloseDate body) (\<lambda>v d. d\<lparr>d_expectedCloseDate := v\<rparr>) @
     push_if (du_actualCloseDate body) (\<lambda>v d. d\<lparr>d_actualCloseDate := v\<rparr>)"
  let ?vs = "push_if (du_stageId body) (\<lambda>v d. d\<lparr>d_stageId := v\<rparr>) @
     push_if (du_notes body) (\<lambda>v d. d\<lparr>d_notes := str_or_null v\<rparr>) @
     push_if (du_products body) (\<lambda>v d. d\<lparr>d_products := v\<rparr>) @ [\<lambda>d. d\<lparr>d_updatedAt := now\<rparr>]"
  have eq: "deal_updates body @ [\<lambda>d. d\<lparr>d_updatedAt := now\<rparr>]
              = ?us @ [\<lambda>d. d\<lparr>d_probability := p\<rparr>] @ ?vs"
    by (simp add: deal_updates_def assms push_if_Some)
  show ?thesis
    unfolding eq by (subst sql_set_assigned) (auto simp: in_push_if)
qed

lemma deal_updates_probability_frame:
  assumes "du_probability body = None"
  shows "d_probability (sql_set (deal_updates body @ [\<lambda>d. d\<lparr>d_updatedAt := now\<rparr>]) d)
           = d_probability d"
  by (rule sql_set_preserves) (auto simp: deal_updates_def in_push_if assms push_if_None)

lemma deal_update_success:
  assumes "deal_update st userId rid now body = (Inr r, st')"
  shows "\<not> (case du_probability body of None \<Rightarrow> False | Some p \<Rightarrow> p < 0 \<or> p > 100)
       \<and> (st' = st \<or>
           st' = st\<lparr>deals := sql_update (\<lambda>d. d_id d = rid)
                     (deal_updates body @ [\<lambda>d. d\<lparr>d_updatedAt := now\<rparr>]) (deals st)\<rparr>)"
  using assms
  by (auto simp: deal_update_def Let_def split: option.splits if_splits)

lemma deal_update_error_state:
  assumes "deal_update st userId rid now body = (Inl e, st')"
  shows "st' = st"
  using assms
  by (auto simp: deal_update_def Let_def sql_returning_def sql_update_none filter_empty_conv
           split: option.splits if_splits)

lemma deal_create_result:
  "deal_create st userId now newId body = (Inr r, st') \<Longrightarrow>
     \<not> (case dc_probability body of None \<Rightarrow> False | Some p \<Rightarrow> p < 0 \<or> 100 < p)
     \<and> (\<exists>d. deals st' = deals st @ [d] \<and> d_id d = newId
            \<and> d_probability d = (case dc_probability body of None \<Rightarrow> 0 | Some p \<Rightarrow> p))"
  by (auto simp: deal_create_def Let_def split: option.splits if_splits)

lemma deal_create_error_state:
  "deal_create st userId now newId body = (Inl e, st') \<Longrightarrow> st' = st"
  by (auto simp: deal_create_def Let_def split: option.splits if_splits)

lemma deal_fetch_row:
  assumes "deal_fetch st rid = Some row"
  shows "\<exists>d \<in> set (deals st). d_id d = rid"
  using queryOne_Some_mem [OF assms [unfolded deal_fetch_def]]
  by (auto simp: deal_join_def)

lemma deal_update_cases:
  assumes upd: "deal_update st userId rid now body = (Inr r, st')"
  shows "(deal_updates body = [] \<and> st' = st \<and> deal_fetch st rid \<noteq> None)
       \<or> (deal_updates body \<noteq> []
          \<and> st' = st\<lparr>deals := sql_update (\<lambda>d. d_id d = rid)
                        (deal_updates body @ [\<lambda>d. d\<lparr>d_updatedAt := now\<rparr>]) (deals st)\<rparr>
          \<and> sql_returning (\<lambda>d. d_id d = rid)
                (deal_updates body @ [\<lambda>d. d\<lparr>d_updatedAt := now\<rparr>]) (deals st) \<noteq> [])"
proof -
  obtain org where org: "userRow st userId = Some org"
    using upd by (cases "userRow st userId") (simp_all add: deal_update_def)
  let ?guard = "[d. d \<leftarrow> deals st, c \<leftarrow> customers st, d_customerId d = c_id c,
                    d_id d = rid \<and> c_organizationId c = org]"
  obtain existing where existing: "queryOne ?guard = Some existing"
    using upd org by (cases "queryOne ?guard") (simp_all add: deal_update_def)
  show ?thesis
  proof (cases "deal_updates body = []")
    case True
    with upd show ?thesis
      by (cases "deal_fetch st rid")
         (simp_all add: deal_update_def org existing Let_def split: if_splits)
  next
    case False
    with upd show ?thesis
      by (simp add: deal_update_def org existing Let_def split: if_splits)
  qed
qed

text \<open>
  What a successful update leaves in the table: the same rows by id, the addressed deal
  among them, and the probabilities as before but for the addressed deal, which has the
  probability of the body when the body has one.
\<close>

lemma deal_update_stored:
  assumes upd: "deal_update st userId rid now body = (Inr r, st')"
  shows "(\<exists>d \<in> set (deals st). d_id d = rid)
       \<and> map d_id (deals st') = map d_id (deals st)
       \<and> map d_probability (deals st')
           = map (\<lambda>d. if d_id d = rid
                       then (case du_probability body of
                               None \<Rightarrow> d_probability d | Some p \<Rightarrow> p)
                       else d_probability d) (deals st)
       \<and> (case du_probability body of None \<Rightarrow> True | Some p \<Rightarrow> 0 \<le> p \<and> p \<le> 100)"
proof -
  let ?us = "deal_updates body @ [\<lambda>d. d\<lparr>d_updatedAt := now\<rparr>]"
  have range: "case du_probability body of None \<Rightarrow> True | Some p \<Rightarrow> 0 \<le> p \<and> p \<le> 100"
    using deal_update_success [OF upd] by (auto split: option.splits)
  from deal_update_cases [OF upd] show ?thesis
  proof (elim disjE conjE)
    assume empty: "deal_updates body = []" and same: "st' = st"
      and fetched: "deal_fetch st rid \<noteq> None"
    from empty have none: "du_probability body = None"
      by (cases "du_probability body") (simp_all add: deal_updates_def push_if_Some)
    from fetched obtain row where "deal_fetch st rid = Some row" by auto
    then have "\<exists>d \<in> set (deals st). d_id d = rid" by (rule deal_fetch_row)
    with same none range show ?thesis by simp
  next
    assume st': "st' = st\<lparr>deals := sql_update (\<lambda>d. d_id d = rid) ?us (deals st)\<rparr>"
      and returned: "sql_returning (\<lambda>d. d_id d = rid) ?us (deals st) \<noteq> []"
    from returned have ex: "\<exists>d \<in> set (deals st). d_id d = rid"
      by (auto simp: sql_returning_def filter_empty_conv)
    have ids: "map d_id (deals st') = map d_id (deals st)"
      by (simp add: st' sql_update_def deal_updates_id)
    have probs: "map d_probability (deals st')
           = map (\<lambda>d. if d_id d = rid
                       then (case du_probability body of
                               None \<Rightarrow> d_probability d | Some p \<Rightarrow> p)
                       else d_probability d) (deals st)"
      by (cases "du_probability body")
         (simp_all add: st' sql_update_def deal_updates_probability
            deal_updates_probability_frame)
    from ex ids probs range show ?thesis by simp
  qed
qed

text \<open>
  Claim C5. No create or update yields a deal whose probability lies outside [0,100],
  whatever probability the request supplies; the application layer keeps the range by
  refusing the request. A create or update whose body carries a probability below 0 or
  above 100 fails and leaves the database unchanged. A create that succeeds appends
  exactly one deal, with the new id and the probability supplied (0 when the body has
  none), within [0,100]. An update that succeeds keeps every row of the table, the
  addressed deal among them; the addressed deal has the probability of the body when
  the body has one, then within [0,100], and every other probability is as before. So
  if every stored probability lies in [0,100] before a create or an update, it does
  afterwards.
\<close>

theorem deal_probability_checked:
  "(deal_create st userId now newId cbody = (Inr r, st') \<longrightarrow>
      (\<exists>d. deals st' = deals st @ [d] \<and> d_id d = newId
           \<and> d_probability d = (case dc_probability cbody of None \<Rightarrow> 0 | Some p \<Rightarrow> p)
           \<and> 0 \<le> d_probability d \<and> d_probability d \<le> 100))
   \<and> (dc_probability cbody = Some p \<and> (p < 0 \<or> 100 < p) \<longrightarrow>
        (\<exists>e. deal_create st userId now newId cbody = (Inl e, st)))
   \<and> (deal_update st userId rid now ubody = (Inr r', st'') \<longrightarrow>
        (\<exists>d \<in> set (deals st). d_id d = rid)
        \<and> map d_id (deals st'') = map d_id (deals st)
        \<and> map d_probability (deals st'')
            = map (\<lambda>d. if d_id d = rid
                        then (case du_probability ubody of
                                None \<Rightarrow> d_probability d | Some q \<Rightarrow> q)
                        else d_probability d) (deals st)
        \<and> (case du_probability ubody of None \<Rightarrow> True | Some q \<Rightarrow> 0 \<le> q \<and> q \<le> 100))
   \<and> (du_probability ubody = Some p \<and> (p < 0 \<or> 100 < p) \<longrightarrow>
        (\<exists>e. deal_update st userId rid now ubody = (Inl e, st)))
   \<and> ((\<forall>d \<in> set (deals st). 0 \<le> d_probability d \<and> d_probability d \<le> 100) \<longrightarrow>
        (\<forall>d \<in> set (deals (snd (deal_create st userId now newId cbody))).
            0 \<le> d_probability d \<and> d_probability d \<le> 100)
        \<and> (\<forall>d \<in> set (deals (snd (deal_update st userId rid now ubody))).
            0 \<le> d_probability d \<and> d_probability d \<le> 100))"
proof -
  obtain cres cs where ceq: "deal_create st userId now newId cbody = (cres, cs)"
    by (cases "deal_create st userId now newId cbody")
  obtain ures us where ueq: "deal_update st userId rid now ubody = (ures, us)"
    by (cases "deal_update st userId rid now ubody")
  have created: "deal_create st userId now newId cbody = (Inr r, st') \<longrightarrow>
      (\<exists>d. deals st' = deals st @ [d] \<and> d_id d = newId
           \<and> d_probability d = (case dc_probability cbody of None \<Rightarrow> 0 | Some p \<Rightarrow> p)
           \<and> 0 \<le> d_probability d \<and> d_probability d \<le> 100)"
    using deal_create_result [of st userId now newId cbody r st']
    by (auto split: option.splits)
  have create_rejects: "dc_probability cbody = Some p \<and> (p < 0 \<or> 100 < p) \<longrightarrow>
        (\<exists>e. deal_create st userId now newId cbody = (Inl e, st))"
  proof
    assume a: "dc_probability cbody = Some p \<and> (p < 0 \<or> 100 < p)"
    show "\<exists>e. deal_create st userId now newId cbody = (Inl e, st)"
    proof (cases cres)
      case (Inl e)
      with ceq deal_create_error_state [of st userId now newId cbody e cs] show ?thesis by simp
    next
      case (Inr v)
      with ceq deal_create_result [of st userId now newId cbody v cs] a show ?thesis by auto
    qed
  qed
  have updated: "deal_update st userId rid now ubody = (Inr r', st'') \<longrightarrow>
        (\<exists>d \<in> set (deals st). d_id d = rid)
        \<and> map d_id (deals st'') = map d_id (deals st)
        \<and> map d_probability (deals st'')
            = map (\<lambda>d. if d_id d = rid
                        then (case du_probability ubody of
                                None \<Rightarrow> d_probability d | Some q \<Rightarrow> q)
                        else d_probability d) (deals st)
        \<and> (case du_probability ubody of None \<Rightarrow> True | Some q \<Rightarrow> 0 \<le> q \<and> q \<le> 100)"
    using deal_update_stored [of st userId rid now ubody r' st''] by blast
  have update_rejects: "du_probability ubody = Some p \<and> (p < 0 \<or> 100 < p) \<longrightarrow>
        (\<exists>e. deal_update st userId rid now ubody = (Inl e, st))"
  proof
    assume a: "du_probability ubody = Some p \<and> (p < 0 \<or> 100 < p)"
    show "\<exists>e. deal_update st userId rid now ubody = (Inl e, st)"
    proof (cases ures)
      case (Inl e)
      with ueq deal_update_error_state [of st userId rid now ubody e us] show ?thesis by simp
    next
      case (Inr v)
      with ueq deal_update_stored [of st userId rid now ubody v us] a show ?thesis by auto
    qed
  qed
  have invariant: "(\<forall>d \<in> set (deals st). 0 \<le> d_probability d \<and> d_probability d \<le> 100) \<longrightarrow>
        (\<forall>d \<in> set (deals (snd (deal_create st userId now newId cbody))).
            0 \<le> d_probability d \<and> d_probability d \<le> 100)
        \<and> (\<forall>d \<in> set (deals (snd (deal_update st userId rid now ubody))).
            0 \<le> d_probability d \<and> d_probability d \<le> 100)"
  proof
    assume inv: "\<forall>d \<in> set (deals st). 0 \<le> d_probability d \<and> d_probability d \<le> 100"
    have c: "\<forall>d \<in> set (deals cs). 0 \<le> d_probability d \<and> d_probability d \<le> 100"
    proof (cases cres)
      case (Inl e)
      with ceq deal_create_error_state [of st userId now newId cbody e cs] inv show ?thesis by simp
    next
      case (Inr v)
      with ceq deal_create_result [of st userId now newId cbody v cs] inv show ?thesis
        by (auto split: option.splits)
    qed
    have u: "\<forall>d \<in> set (deals us). 0 \<le> d_probability d \<and> d_probability d \<le> 100"
    proof (cases ures)
      case (Inl e)
      with ueq deal_update_error_state [of st userId rid now ubody e us] inv show ?thesis by simp
    next
      case (Inr v)
      with ueq have upd: "deal_update st userId rid now ubody = (Inr v, us)" by simp
      note stored = deal_update_stored [OF upd]
      have "\<forall>x \<in> set (map d_probability (deals us)). 0 \<le> x \<and> x \<le> 100"
        using stored inv
        by (auto split: option.splits if_splits)
      then show ?thesis by simp
    qed
    from c u show "(\<forall>d \<in> set (deals (snd (deal_create st userId now newId cbody))).
            0 \<le> d_probability d \<and> d_probability d \<le> 100)
        \<and> (\<forall>d \<in> set (deals (snd (deal_update st userId rid now ubody))).
            0 \<le> d_probability d \<and> d_probability d \<le> 100)"
      by (simp add: ceq ueq)
  qed
  show ?thesis
    by (intro conjI) (rule created create_rejects updated update_rejects invariant)+
qed

theorem deal_probability_checked_witness:
  "(\<exists>r. fst (deal_create sample_db ''u-alice'' 50 ''d-new'' acme_deal_request) = Inr r)
   \<and> (\<exists>d. deals (snd (deal_create sample_db ''u-alice'' 50 ''d-new'' acme_deal_request))
              = deals sample_db @ [d] \<and> d_id d = ''d-new'' \<and> d_probability d = 10)
   \<and> deal_create sample_db ''u-alice'' 50 ''d-new'' (acme_deal_request\<lparr>dc_probability := Some 150\<rparr>)
       = (Inl (ValidationError ''Probability must be between 0 and 100''), sample_db)
   \<and> (\<exists>r. fst (deal_update sample_db ''u-alice'' ''d-acme'' 50
                   (empty_deal_body\<lparr>du_probability := Some 60\<rparr>)) = Inr r)
   \<and> map d_id (deals (snd (deal_update sample_db ''u-alice'' ''d-acme'' 50
                              (empty_deal_body\<lparr>du_probability := Some 60\<rparr>))))
       = [''d-acme'', ''d-globex'']
   \<and> map d_probability (deals (snd (deal_update sample_db ''u-alice'' ''d-acme'' 50
                                       (empty_deal_body\<lparr>du_probability := Some 60\<rparr>))))
       = [60, 20]
   \<and> deal_update sample_db ''u-alice'' ''d-acme'' 50 (empty_deal_body\<lparr>du_probability := Some 150\<rparr>)
       = (Inl (ValidationError ''Probability must be between 0 and 100''), sample_db)
   \<and> list_all (\<lambda>d. 0 \<le> d_probability d \<and> d_probability d \<le> 100) (deals sample_db)
   \<and> list_all (\<lambda>d. 0 \<le> d_probability d \<and> d_probability d \<le> 100)
        (deals (snd (deal_create sample_db ''u-alice'' 50 ''d-new'' acme_deal_request)))
   \<and> list_all (\<lambda>d. 0 \<le> d_probability d \<and> d_probability d \<le> 100)
        (deals (snd (deal_update sample_db ''u-alice'' ''d-acme'' 50
                       (empty_deal_body\<lparr>du_probability := Some 60\<rparr>))))"
proof -
  let ?create = "deal_create sample_db ''u-alice'' 50 ''d-new'' acme_deal_request"
  let ?ub = "empty_deal_body\<lparr>du_probability := Some 60\<rparr>"
  let ?update = "deal_update sample_db ''u-alice'' ''d-acme'' 50 ?ub"
  let ?cb' = "acme_deal_request\<lparr>dc_probability := Some 150\<rparr>"
  let ?ub' = "empty_deal_body\<lparr>du_probability := Some 150\<rparr>"
  have c_ok: "\<exists>r. fst ?create = Inr r"
    by (simp add: deal_create_def stageExists_def userRow_def sample_defs acme_deal_request_def
          customer_visible_def Let_def)
  then obtain r where c_eq: "?create = (Inr r, snd ?create)"
    by (metis prod.collapse)
  have u_ok: "\<exists>r. fst ?update = Inr r"
    by (simp add: deal_update_def deal_updates_def push_if_def sql_update_def sql_returning_def
          sql_set_def userRow_def sample_defs empty_body_defs Let_def)
  then obtain r' where u_eq: "?update = (Inr r', snd ?update)"
    by (metis prod.collapse)
  have inv: "\<forall>d \<in> set (deals sample_db). 0 \<le> d_probability d \<and> d_probability d \<le> 100"
    by (simp add: sample_defs)
  have c_rej: "deal_create sample_db ''u-alice'' 50 ''d-new'' ?cb'
                 = (Inl (ValidationError ''Probability must be between 0 and 100''), sample_db)"
    by (simp add: deal_create_def stageExists_def userRow_def sample_defs acme_deal_request_def
          customer_visible_def Let_def)
  have u_rej: "deal_update sample_db ''u-alice'' ''d-acme'' 50 ?ub'
                 = (Inl (ValidationError ''Probability must be between 0 and 100''), sample_db)"
    by (simp add: deal_update_def userRow_def sample_defs empty_body_defs)
  note ok = deal_probability_checked [of sample_db "''u-alice''" 50 "''d-new''" acme_deal_request
              r "snd ?create" 60 "''d-acme''" ?ub r' "snd ?update"]
  note bad = deal_probability_checked [of sample_db "''u-alice''" 50 "''d-new''" ?cb'
              r "snd ?create" 150 "''d-acme''" ?ub' r' "snd ?update"]
  from ok [THEN conjunct1, THEN mp, OF c_eq]
  have created: "\<exists>d. deals (snd ?create) = deals sample_db @ [d] \<and> d_id d = ''d-new''
                     \<and> d_probability d = 10"
    by (auto simp: acme_deal_request_def)
  have "\<exists>e. deal_create sample_db ''u-alice'' 50 ''d-new'' ?cb' = (Inl e, sample_db)"
    by (rule bad [THEN conjunct2, THEN conjunct1, THEN mp]) simp
  note upd = ok [THEN conjunct2, THEN conjunct2, THEN conjunct1, THEN mp, OF u_eq]
  have ids: "map d_id (deals (snd ?update)) = [''d-acme'', ''d-globex'']"
    using upd by (simp add: sample_defs)
  have probs: "map d_probability (deals (snd ?update)) = [60, 20]"
    using upd by (simp add: sample_defs)
  have "\<exists>e. deal_update sample_db ''u-alice'' ''d-acme'' 50 ?ub' = (Inl e, sample_db)"
    by (rule bad [THEN conjunct2, THEN conjunct2, THEN conjunct2, THEN conjunct1, THEN mp]) simp
  from ok [THEN conjunct2, THEN conjunct2, THEN conjunct2, THEN conjunct2, THEN mp, OF inv]
  have kept: "list_all (\<lambda>d. 0 \<le> d_probability d \<and> d_probability d \<le> 100) (deals (snd ?create))"
    "list_all (\<lambda>d. 0 \<le> d_probability d \<and> d_probability d \<le> 100) (deals (snd ?update))"
    by (simp_all add: list_all_iff)
  have inv': "list_all (\<lambda>d. 0 \<le> d_probability d \<and> d_probability d \<le> 100) (deals sample_db)"
    using inv by (simp add: list_all_iff)
  show ?thesis
    by (intro conjI) (rule c_ok created c_rej u_ok ids probs u_rej inv' kept)+
qed

section \<open>Status, completion time and related deal on task update\<close>

lemma task_updates_id:
  "t_id (sql_set (task_updates now body @ [\<lambda>t. t\<lparr>t_updatedAt := now\<rparr>]) t) = t_id t"
  by (rule sql_set_preserves) (auto simp: task_updates_def in_push_if split: option.splits)

lemma task_updates_relatedDealId:
  assumes "tu_relatedDealId body = Some v"
  shows "t_relatedDealId (sql_set (task_updates now body @ [\<lambda>t. t\<lparr>t_updatedAt := now\<rparr>]) t)
           = str_or_null v"
proof -
  let ?us = "push_if (tu_title body) (\<lambda>v t. t\<lparr>t_title := v\<rparr>) @
     push_if (tu_description body) (\<lambda>v t. t\<lparr>t_description := str_or_null v\<rparr>) @
     push_if (tu_priority body) (\<lambda>v t. t\<lparr>t_priority := v\<rparr>) @
     (case tu_status body of
        None \<Rightarrow> []
      | Some status \<Rightarrow>
          [\<lambda>t. t\<lparr>t_status := status\<rparr>,
           if status = COMPLETE then (\<lambda>t. t\<lparr>t_completedAt := Some now\<rparr>)
           else (\<lambda>t. t\<lparr>t_completedAt := None\<rparr>)]) @
     push_if (tu_dueDate body) (\<lambda>v t. t\<lparr>t_dueDate := v\<rparr>) @
     push_if (tu_assigneeId body) (\<lambda>v t. t\<lparr>t_assigneeId := v\<rparr>) @
     push_if (tu_relatedCustomerId body) (\<lambda>v t. t\<lparr>t_relatedCustomerId := str_or_null v\<rparr>)"
  let ?vs = "push_if (tu_timeSpent body) (\<lambda>v t. t\<lparr>t_timeSpent := num_or_null v\<rparr>)
               @ [\<lambda>t. t\<lparr>t_updatedAt := now\<rparr>]"
  have eq: "task_updates now body @ [\<lambda>t. t\<lparr>t_updatedAt := now\<rparr>]
              = ?us @ [\<lambda>t. t\<lparr>t_relatedDealId := str_or_null v\<rparr>] @ ?vs"
    by (simp add: task_updates_def assms push_if_Some)
  show ?thesis
    unfolding eq by (subst sql_set_assigned) (auto simp: in_push_if)
qed

lemma task_updates_status:
  assumes "tu_status body = Some s"
  shows "t_status (sql_set (task_updates now body @ [\<lambda>t. t\<lparr>t_updatedAt := now\<rparr>]) t) = s"
    and "t_completedAt (sql_set (task_updates now body @ [\<lambda>t. t\<lparr>t_updatedAt := now\<rparr>]) t)
           = (if s = COMPLETE then Some now else None)"
proof -
  let ?us = "push_if (tu_title body) (\<lambda>v t. t\<lparr>t_title := v\<rparr>) @
     push_if (tu_description body) (\<lambda>v t. t\<lparr>t_description := str_or_null v\<rparr>) @
     push_if (tu_priority body) (\<lambda>v t. t\<lparr>t_priority := v\<rparr>)"
  let ?c = "if s = COMPLETE then (\<lambda>t. t\<lparr>t_completedAt := Some now\<rparr>)
            else (\<lambda>t. t\<lparr>t_completedAt := None\<rparr>)"
  let ?vs = "push_if (tu_dueDate body) (\<lambda>v t. t\<lparr>t_dueDate := v\<rparr>) @
     push_if (tu_assigneeId body) (\<lambda>v t. t\<lparr>t_assigneeId := v\<rparr>) @
     push_if (tu_relatedCustomerId body) (\<lambda>v t. t\<lparr>t_relatedCustomerId := str_or_null v\<rparr>) @
     push_if (tu_relatedDealId body) (\<lambda>v t. t\<lparr>t_relatedDealId := str_or_null v\<rparr>) @
     push_if (tu_timeSpent body) (\<lambda>v t. t\<lparr>t_timeSpent := num_or_null v\<rparr>)
       @ [\<lambda>t. t\<lparr>t_updatedAt := now\<rparr>]"
  have eq1: "task_updates now body @ [\<lambda>t. t\<lparr>t_updatedAt := now\<rparr>]
              = ?us @ [\<lambda>t. t\<lparr>t_status := s\<rparr>] @ (?c # ?vs)"
    by (simp add: task_updates_def assms)
  have eq2: "task_updates now body @ [\<lambda>t. t\<lparr>t_updatedAt := now\<rparr>]
              = (?us @ [\<lambda>t. t\<lparr>t_status := s\<rparr>]) @ [?c] @ ?vs"
    by (simp add: task_updates_def assms)
  show "t_status (sql_set (task_updates now body @ [\<lambda>t. t\<lparr>t_updatedAt := now\<rparr>]) t) = s"
    unfolding eq1 by (subst sql_set_assigned) (auto simp: in_push_if)
  show "t_completedAt (sql_set (task_updates now body @ [\<lambda>t. t\<lparr>t_updatedAt := now\<rparr>]) t)
           = (if s = COMPLETE then Some now else None)"
    unfolding eq2 by (subst sql_set_assigned) (auto simp: in_push_if)
qed

text \<open>
  An update that carries a status and succeeds leaves the addressed task with that
  status and with \<open>completedAt\<close> set exactly when the status is COMPLETE, whatever
  \<open>completedAt\<close> the body carries.
\<close>

lemma task_update_status_completedAt:
  assumes upd: "task_update st userId rid now body = (Inr r, st')"
      and status: "tu_status body = Some s"
      and t: "t \<in> set (tasks st')" "t_id t = rid"
  shows "t_status t = s \<and> (t_completedAt t \<noteq> None \<longleftrightarrow> s = COMPLETE)"
proof -
  let ?us = "task_updates now body @ [\<lambda>t. t\<lparr>t_updatedAt := now\<rparr>]"
  have "task_updates now body \<noteq> []"
    by (simp add: task_updates_def status)
  with upd have "st' = st\<lparr>tasks := sql_update (\<lambda>t. t_id t = rid) ?us (tasks st)\<rparr>"
    by (auto simp: task_update_def Let_def split: option.splits if_splits)
  with t obtain t0 where eq: "t = (if t_id t0 = rid then sql_set ?us t0 else t0)"
    by (auto simp: in_sql_update)
  with t(2) have "t_id t0 = rid" by (auto simp: task_updates_id split: if_splits)
  with eq show ?thesis by (simp add: task_updates_status [OF status])
qed


lemma task_create_relatedDealId:
  assumes caller: "userRow st userId = Some org"
      and deal: "dealId \<noteq> []"
      and assignee: "\<exists>u \<in> set (users st).
                       u_id u = (case tc_assigneeId body of
                                   None \<Rightarrow> userId | Some a \<Rightarrow> if a = [] then userId else a)
                       \<and> u_organizationId u = org"
      and customer: "\<forall>cid. str_or_null (undef_or_null (tc_relatedCustomerId body)) = Some cid \<longrightarrow>
                       (\<exists>c \<in> set (customers st). customer_visible cid org c)"
  shows "(\<exists>r. fst (task_create st userId now newId (body\<lparr>tc_relatedDealId := Some (Some dealId)\<rparr>))
               = Inr r)
       \<and> (\<exists>t. tasks (snd (task_create st userId now newId
                                (body\<lparr>tc_relatedDealId := Some (Some dealId)\<rparr>)))
               = tasks st @ [t]
             \<and> t_id t = newId \<and> t_relatedDealId t = Some dealId)"
proof -
  let ?a = "case tc_assigneeId body of None \<Rightarrow> userId | Some a \<Rightarrow> if a = [] then userId else a"
  from assignee have "[u \<leftarrow> users st. u_id u = ?a \<and> u_organizationId u = org] \<noteq> []"
    by (simp add: filter_empty_conv)
  then obtain u where u: "queryOne [u \<leftarrow> users st. u_id u = ?a \<and> u_organizationId u = org] = Some u"
    by (rule queryOne_ex)
  have c: "\<not> (case str_or_null (undef_or_null (tc_relatedCustomerId body)) of
               None \<Rightarrow> False
             | Some relatedCustomerId \<Rightarrow>
                 queryOne [c \<leftarrow> customers st. customer_visible relatedCustomerId org c] = None)"
    using customer by (auto simp: filter_empty_conv split: option.splits)
  show ?thesis
    using deal c
    by (simp add: task_create_def Let_def caller u str_or_null_def undef_or_null_def)
qed

lemma task_update_relatedDealId:
  assumes caller: "userRow st userId = Some org"
      and deal: "dealId \<noteq> []"
      and existing: "\<exists>t \<in> set (tasks st). t_id t = rid
                       \<and> (\<exists>u \<in> set (users st). t_assigneeId t = u_id u \<and> u_organizationId u = org)"
      and assignee: "\<forall>a. tu_assigneeId body = Some a \<and> a \<noteq> [] \<longrightarrow>
                       (\<exists>u \<in> set (users st). u_id u = a \<and> u_organizationId u = org)"
      and customer: "\<forall>cid. str_or_null (undef_or_null (tu_relatedCustomerId body)) = Some cid \<longrightarrow>
                       (\<exists>c \<in> set (customers st). customer_visible cid org c)"
  shows "\<exists>r st'. task_update st userId rid now (body\<lparr>tu_relatedDealId := Some (Some dealId)\<rparr>)
                    = (Inr r, st')
               \<and> (\<exists>t \<in> set (tasks st'). t_id t = rid)
               \<and> (\<forall>t \<in> set (tasks st'). t_id t = rid \<longrightarrow> t_relatedDealId t = Some dealId)"
proof -
  let ?body = "body\<lparr>tu_relatedDealId := Some (Some dealId)\<rparr>"
  let ?us = "task_updates now ?body @ [\<lambda>t. t\<lparr>t_updatedAt := now\<rparr>]"
  let ?st' = "st\<lparr>tasks := sql_update (\<lambda>t. t_id t = rid) ?us (tasks st)\<rparr>"
  let ?guard = "[t. t \<leftarrow> tasks st, u \<leftarrow> users st, t_assigneeId t = u_id u,
                    t_id t = rid \<and> u_organizationId u = org]"
  from existing have "?guard \<noteq> []" by auto
  then obtain e where e: "queryOne ?guard = Some e"
    by (rule queryOne_ex)
  have a: "\<not> (case tu_assigneeId ?body of
               None \<Rightarrow> False
             | Some assigneeId \<Rightarrow>
                 assigneeId \<noteq> [] \<and>
                 queryOne [u \<leftarrow> users st. u_id u = assigneeId \<and> u_organizationId u = org] = None)"
    using assignee by (auto simp: filter_empty_conv split: option.splits)
  have c: "\<not> (case str_or_null (undef_or_null (tu_relatedCustomerId ?body)) of
               None \<Rightarrow> False
             | Some relatedCustomerId \<Rightarrow>
                 queryOne [c \<leftarrow> customers st. customer_visible relatedCustomerId org c] = None)"
    using customer by (auto simp: filter_empty_conv split: option.splits)
  have nonempty: "task_updates now ?body \<noteq> []"
    by (simp add: task_updates_def push_if_Some)
  from existing obtain t0 where t0: "t0 \<in> set (tasks st)" "t_id t0 = rid" by blast
  then have returned: "sql_returning (\<lambda>t. t_id t = rid) ?us (tasks st) \<noteq> []"
    by (auto simp: sql_returning_def filter_empty_conv)
  have res: "task_update st userId rid now ?body = (Inr (task_fetch ?st' rid), ?st')"
    using a c nonempty returned
    by (simp add: task_update_def Let_def caller e)
  have stored: "\<forall>t \<in> set (tasks ?st'). t_id t = rid \<longrightarrow> t_relatedDealId t = Some dealId"
  proof (intro ballI impI)
    fix t assume t: "t \<in> set (tasks ?st')" "t_id t = rid"
    then obtain t1 where eq: "t = (if t_id t1 = rid then sql_set ?us t1 else t1)"
      by (auto simp: in_sql_update)
    with t(2) have "t_id t1 = rid" by (auto simp: task_updates_id split: if_splits)
    with eq have "t_relatedDealId t = str_or_null (Some dealId)"
      by (simp add: task_updates_relatedDealId [of ?body "Some dealId"])
    with deal show "t_relatedDealId t = Some dealId"
      by (simp add: str_or_null_def)
  qed
  have "sql_set ?us t0 \<in> set (tasks ?st')"
    using t0 by (auto simp: in_sql_update)
  moreover have "t_id (sql_set ?us t0) = rid"
    using t0 by (simp add: task_updates_id)
  ultimately have present: "\<exists>t \<in> set (tasks ?st'). t_id t = rid" by blast
  from res present stored show ?thesis by blast
qed

lemma task_create_errors:
  assumes caller: "userRow st userId = Some org"
      and err: "task_create st userId now newId body = (Inl e, s)"
  shows "e = NotFoundError ''Assignee not found'' \<or> e = NotFoundError ''Customer not found''"
  using err
  by (auto simp: task_create_def Let_def caller split: option.splits if_splits)

lemma task_update_errors:
  assumes caller: "userRow st userId = Some org"
      and err: "task_update st userId rid now body = (Inl e, s)"
  shows "e = NotFoundError ''Task not found'' \<or> e = NotFoundError ''Assignee not found''
           \<or> e = NotFoundError ''Customer not found''"
  using err
  by (auto simp: task_update_def Let_def caller split: option.splits if_splits)


text \<open>
  Claim C9. Let the caller's organization be resolved and let \<open>dealId\<close> be any non-empty
  id, whatever the \<open>deals\<close> table holds. A create request with that \<open>relatedDealId\<close>
  succeeds whenever its assignee (the caller when none is given) is a user of the
  organization and its related customer, if any, is a visible customer of the
  organization, and the task it appends stores the id. An update request with that
  \<open>relatedDealId\<close> succeeds whenever the task passes the tenant guard and the same two
  conditions hold for the fields the body carries, and the addressed task then stores
  the id. The only errors create can return are "Assignee not found" and "Customer not
  found"; update can also return "Task not found".
\<close>

theorem task_relatedDealId_unchecked:
  assumes caller: "userRow st userId = Some org"
      and deal: "dealId \<noteq> []"
  shows "((\<exists>u \<in> set (users st).
             u_id u = (case tc_assigneeId cbody of
                         None \<Rightarrow> userId | Some a \<Rightarrow> if a = [] then userId else a)
             \<and> u_organizationId u = org)
          \<and> (\<forall>cid. str_or_null (undef_or_null (tc_relatedCustomerId cbody)) = Some cid \<longrightarrow>
                 (\<exists>c \<in> set (customers st). customer_visible cid org c))
          \<longrightarrow> (\<exists>r. fst (task_create st userId now newId
                             (cbody\<lparr>tc_relatedDealId := Some (Some dealId)\<rparr>)) = Inr r)
            \<and> (\<exists>t. tasks (snd (task_create st userId now newId
                                   (cbody\<lparr>tc_relatedDealId := Some (Some dealId)\<rparr>)))
                       = tasks st @ [t]
                  \<and> t_id t = newId \<and> t_relatedDealId t = Some dealId))
       \<and> ((\<exists>t \<in> set (tasks st). t_id t = rid
              \<and> (\<exists>u \<in> set (users st). t_assigneeId t = u_id u \<and> u_organizationId u = org))
          \<and> (\<forall>a. tu_assigneeId ubody = Some a \<and> a \<noteq> [] \<longrightarrow>
                 (\<exists>u \<in> set (users st). u_id u = a \<and> u_organizationId u = org))
          \<and> (\<forall>cid. str_or_null (undef_or_null (tu_relatedCustomerId ubody)) = Some cid \<longrightarrow>
                 (\<exists>c \<in> set (customers st). customer_visible cid org c))
          \<longrightarrow> (\<exists>r st'. task_update st userId rid now (ubody\<lparr>tu_relatedDealId := Some (Some dealId)\<rparr>)
                          = (Inr r, st')
                  \<and> (\<exists>t \<in> set (tasks st'). t_id t = rid)
                  \<and> (\<forall>t \<in> set (tasks st'). t_id t = rid \<longrightarrow> t_relatedDealId t = Some dealId)))
       \<and> (task_create st userId now newId cbody = (Inl e, s) \<longrightarrow>
             e = NotFoundError ''Assignee not found'' \<or> e = NotFoundError ''Customer not found'')
       \<and> (task_update st userId rid now ubody = (Inl e', s') \<longrightarrow>
             e' = NotFoundError ''Task not found'' \<or> e' = NotFoundError ''Assignee not found''
             \<or> e' = NotFoundError ''Customer not found'')"
proof -
  have create: "(\<exists>u \<in> set (users st).
             u_id u = (case tc_assigneeId cbody of
                         None \<Rightarrow> userId | Some a \<Rightarrow> if a = [] then userId else a)
             \<and> u_organizationId u = org)
          \<and> (\<forall>cid. str_or_null (undef_or_null (tc_relatedCustomerId cbody)) = Some cid \<longrightarrow>
                 (\<exists>c \<in> set (customers st). customer_visible cid org c))
          \<longrightarrow> (\<exists>r. fst (task_create st userId now newId
                             (cbody\<lparr>tc_relatedDealId := Some (Some dealId)\<rparr>)) = Inr r)
            \<and> (\<exists>t. tasks (snd (task_create st userId now newId
                                   (cbody\<lparr>tc_relatedDealId := Some (Some dealId)\<rparr>)))
                       = tasks st @ [t]
                  \<and> t_id t = newId \<and> t_relatedDealId t = Some dealId)"
    using task_create_relatedDealId [OF caller deal, of cbody now newId] by blast
  have update: "(\<exists>t \<in> set (tasks st). t_id t = rid
              \<and> (\<exists>u \<in> set (users st). t_assigneeId t = u_id u \<and> u_organizationId u = org))
          \<and> (\<forall>a. tu_assigneeId ubody = Some a \<and> a \<noteq> [] \<longrightarrow>
                 (\<exists>u \<in> set (users st). u_id u = a \<and> u_organizationId u = org))
          \<and> (\<forall>cid. str_or_null (undef_or_null (tu_relatedCustomerId ubody)) = Some cid \<longrightarrow>
                 (\<exists>c \<in> set (customers st). customer_visible cid org c))
          \<longrightarrow> (\<exists>r st'. task_update st userId rid now (ubody\<lparr>tu_relatedDealId := Some (Some dealId)\<rparr>)
                          = (Inr r, st')
                  \<and> (\<exists>t \<in> set (tasks st'). t_id t = rid)
                  \<and> (\<forall>t \<in> set (tasks st'). t_id t = rid \<longrightarrow> t_relatedDealId t = Some dealId))"
    using task_update_relatedDealId [OF caller deal, of rid ubody now] by blast
  have create_err: "task_create st userId now newId cbody = (Inl e, s) \<longrightarrow>
             e = NotFoundError ''Assignee not found'' \<or> e = NotFoundError ''Customer not found''"
    using task_create_errors [OF caller] by blast
  have update_err: "task_update st userId rid now ubody = (Inl e', s') \<longrightarrow>
             e' = NotFoundError ''Task not found'' \<or> e' = NotFoundError ''Assignee not found''
             \<or> e' = NotFoundError ''Customer not found''"
    using task_update_errors [OF caller] by blast
  show ?thesis
    by (intro conjI) (rule create update create_err update_err)+
qed


theorem task_relatedDealId_unchecked_witness:
  "userRow sample_db ''u-alice'' = Some ''org-acme''
   \<and> (\<exists>d \<in> set (deals sample_db). d_id d = ''d-globex''
         \<and> (\<exists>c \<in> set (customers sample_db).
               d_customerId d = c_id c \<and> c_organizationId c = ''org-globex''))
   \<and> (\<exists>r. fst (task_create sample_db ''u-alice'' 50 ''t-new''
                   (acme_task_request\<lparr>tc_relatedDealId := Some (Some ''d-globex'')\<rparr>)) = Inr r)
   \<and> (\<exists>t. tasks (snd (task_create sample_db ''u-alice'' 50 ''t-new''
                         (acme_task_request\<lparr>tc_relatedDealId := Some (Some ''d-globex'')\<rparr>)))
             = tasks sample_db @ [t]
           \<and> t_id t = ''t-new'' \<and> t_relatedDealId t = Some ''d-globex'')
   \<and> \<not> (\<exists>d \<in> set (deals sample_db). d_id d = ''d-none'')
   \<and> (\<exists>r st'. task_update sample_db ''u-alice'' ''t-acme'' 50
                   (empty_task_body\<lparr>tu_relatedDealId := Some (Some ''d-none'')\<rparr>) = (Inr r, st')
           \<and> (\<exists>t \<in> set (tasks st'). t_id t = ''t-acme'')
           \<and> (\<forall>t \<in> set (tasks st'). t_id t = ''t-acme'' \<longrightarrow> t_relatedDealId t = Some ''d-none''))
   \<and> task_create sample_db ''u-alice'' 50 ''t-new'' (acme_task_request\<lparr>tc_assigneeId := Some ''u-bob''\<rparr>)
       = (Inl (NotFoundError ''Assignee not found''), sample_db)
   \<and> task_update sample_db ''u-alice'' ''t-acme'' 50
         (empty_task_body\<lparr>tu_relatedCustomerId := Some (Some ''c-gary'')\<rparr>)
       = (Inl (NotFoundError ''Customer not found''), sample_db)"
proof -
  have caller: "userRow sample_db ''u-alice'' = Some ''org-acme''"
    by (simp add: userRow_def sample_defs)
  have foreign: "\<exists>d \<in> set (deals sample_db). d_id d = ''d-globex''
         \<and> (\<exists>c \<in> set (customers sample_db).
               d_customerId d = c_id c \<and> c_organizationId c = ''org-globex'')"
    by (simp add: sample_defs)
  have absent: "\<not> (\<exists>d \<in> set (deals sample_db). d_id d = ''d-none'')"
    by (simp add: sample_defs)
  have c_guards: "(\<exists>u \<in> set (users sample_db).
             u_id u = (case tc_assigneeId acme_task_request of
                         None \<Rightarrow> ''u-alice'' | Some a \<Rightarrow> if a = [] then ''u-alice'' else a)
             \<and> u_organizationId u = ''org-acme'')
          \<and> (\<forall>cid. str_or_null (undef_or_null (tc_relatedCustomerId acme_task_request)) = Some cid \<longrightarrow>
                 (\<exists>c \<in> set (customers sample_db). customer_visible cid ''org-acme'' c))"
    by (simp add: acme_task_request_def sample_defs str_or_null_def undef_or_null_def)
  have u_guards: "(\<exists>t \<in> set (tasks sample_db). t_id t = ''t-acme''
              \<and> (\<exists>u \<in> set (users sample_db).
                    t_assigneeId t = u_id u \<and> u_organizationId u = ''org-acme''))
          \<and> (\<forall>a. tu_assigneeId empty_task_body = Some a \<and> a \<noteq> [] \<longrightarrow>
                 (\<exists>u \<in> set (users sample_db). u_id u = a \<and> u_organizationId u = ''org-acme''))
          \<and> (\<forall>cid. str_or_null (undef_or_null (tu_relatedCustomerId empty_task_body)) = Some cid \<longrightarrow>
                 (\<exists>c \<in> set (customers sample_db). customer_visible cid ''org-acme'' c))"
    by (simp add: empty_task_body_def sample_defs str_or_null_def undef_or_null_def)
  have c_err: "task_create sample_db ''u-alice'' 50 ''t-new''
                 (acme_task_request\<lparr>tc_assigneeId := Some ''u-bob''\<rparr>)
               = (Inl (NotFoundError ''Assignee not found''), sample_db)"
    by (simp add: task_create_def userRow_def sample_defs acme_task_request_def Let_def)
  have u_err: "task_update sample_db ''u-alice'' ''t-acme'' 50
                 (empty_task_body\<lparr>tu_relatedCustomerId := Some (Some ''c-gary'')\<rparr>)
               = (Inl (NotFoundError ''Customer not found''), sample_db)"
    by (simp add: task_update_def userRow_def sample_defs empty_task_body_def Let_def
          str_or_null_def undef_or_null_def customer_visible_def)
  note A = task_relatedDealId_unchecked [OF caller, of "''d-globex''" acme_task_request 50
             "''t-new''" "''t-acme''" empty_task_body, THEN conjunct1, THEN mp, OF _ c_guards]
  note B = task_relatedDealId_unchecked [OF caller, of "''d-none''" acme_task_request 50
             "''t-new''" "''t-acme''" empty_task_body, THEN conjunct2, THEN conjunct1, THEN mp,
             OF _ u_guards]
  note C = task_relatedDealId_unchecked [OF caller, of "''d-none''"
             "acme_task_request\<lparr>tc_assigneeId := Some ''u-bob''\<rparr>" 50 "''t-new''" "''t-acme''"
             "empty_task_body\<lparr>tu_relatedCustomerId := Some (Some ''c-gary'')\<rparr>"
             "NotFoundError ''Assignee not found''" sample_db
             "NotFoundError ''Customer not found''" sample_db]
  have created: "(\<exists>r. fst (task_create sample_db ''u-alice'' 50 ''t-new''
                   (acme_task_request\<lparr>tc_relatedDealId := Some (Some ''d-globex'')\<rparr>)) = Inr r)
     \<and> (\<exists>t. tasks (snd (task_create sample_db ''u-alice'' 50 ''t-new''
                         (acme_task_request\<lparr>tc_relatedDealId := Some (Some ''d-globex'')\<rparr>)))
             = tasks sample_db @ [t]
           \<and> t_id t = ''t-new'' \<and> t_relatedDealId t = Some ''d-globex'')"
    by (rule A) simp
  have updated: "\<exists>r st'. task_update sample_db ''u-alice'' ''t-acme'' 50
                   (empty_task_body\<lparr>tu_relatedDealId := Some (Some ''d-none'')\<rparr>) = (Inr r, st')
           \<and> (\<exists>t \<in> set (tasks st'). t_id t = ''t-acme'')
           \<and> (\<forall>t \<in> set (tasks st'). t_id t = ''t-acme'' \<longrightarrow> t_relatedDealId t = Some ''d-none'')"
    by (rule B) simp
  have errs: "NotFoundError ''Assignee not found'' = NotFoundError ''Assignee not found''
                \<or> NotFoundError ''Assignee not found'' = NotFoundError ''Customer not found''"
    using C [THEN conjunct2, THEN conjunct2, THEN conjunct1, THEN mp, OF _ c_err] by simp
  show ?thesis
    using created
    by (intro conjI) (simp_all only: caller foreign absent updated c_err u_err simp_thms)
qed

section \<open>Paging the contact history\<close>

lemma concat_windows:
  "concat (map (\<lambda>k. take lim (drop (k * lim) xs)) [0..<n]) = take (n * lim) xs"
proof (induction n)
  case 0
  show ?case by simp
next
  case (Suc n)
  have "take (n * lim) xs @ take lim (drop (n * lim) xs) = take (n * lim + lim) xs"
    by (simp add: take_add)
  with Suc show ?case by (simp add: add.commute)
qed

lemma order_by_desc_sorted:
  "sorted_wrt (\<lambda>a b. key b \<le> key a) (order_by_desc tie key rows)"
proof -
  have "sorted (map key (sort_key key (sort_key tie rows)))" by (rule sorted_sort_key)
  then have "sorted_wrt (\<lambda>a b. key a \<le> key b) (sort_key key (sort_key tie rows))"
    by (simp add: sorted_map)
  then show ?thesis
    by (simp add: order_by_desc_def sorted_wrt_rev)
qed

lemma order_by_desc_mset: "mset (order_by_desc tie key rows) = mset rows"
  by (simp add: order_by_desc_def)

text \<open>Where the keys are pairwise distinct, the choice among ties has nothing to choose.\<close>

lemma order_by_desc_distinct_keys:
  assumes "distinct (map key rows)"
  shows "order_by_desc tie key rows = order_by_desc tie' key rows"
proof -
  let ?a = "sort_key key (sort_key tie rows)" and ?b = "sort_key key (sort_key tie' rows)"
  have sets: "set ?a = set rows" "set ?b = set rows" by simp_all
  have "mset (map key ?a) = mset (map key rows)" "mset (map key ?b) = mset (map key rows)"
    by simp_all
  with assms have dist: "distinct (map key ?a)" "distinct (map key ?b)"
    by (metis mset_eq_imp_distinct_iff)+
  have "map key ?a = map key ?b"
    by (rule sorted_distinct_set_unique) (simp_all add: dist)
  moreover from assms have "inj_on key (set ?a \<union> set ?b)"
    by (simp add: sets distinct_map)
  ultimately have "?a = ?b"
    by (simp add: inj_on_map_eq_map)
  then show ?thesis by (simp add: order_by_desc_def)
qed

lemma contact_page_window:
  assumes caller: "userRow st userId = Some org"
  shows "contact_page st userId customerId type lim off tie
           = take lim (drop off (order_by_desc tie (\<lambda>r. ch_createdAt (fst r))
                                   (contact_matching st org customerId type)))"
  by (simp add: contact_page_def contact_getAll_def caller Let_def)

text \<open>
  If every request orders the ties in the same way, the pages are the windows of one
  list, whatever the creation times.
\<close>

lemma contact_pages_same_order:
  assumes caller: "userRow st userId = Some org"
      and n: "length (contact_matching st org customerId type) \<le> n * lim"
  shows "contact_pages st userId customerId type lim n (\<lambda>k. tie)
           = order_by_desc tie (\<lambda>r. ch_createdAt (fst r)) (contact_matching st org customerId type)"
proof -
  let ?full = "order_by_desc tie (\<lambda>r. ch_createdAt (fst r))
                 (contact_matching st org customerId type)"
  have len: "length ?full = length (contact_matching st org customerId type)"
    by (simp add: order_by_desc_def)
  have "contact_pages st userId customerId type lim n (\<lambda>k. tie) = take (n * lim) ?full"
    by (simp add: contact_pages_def contact_page_window [OF caller] concat_windows)
  with n len show ?thesis by simp
qed

text \<open>
  Claim C8, amended. Let the caller's organization be resolved, fix the \<open>customerId\<close> and
  \<open>type\<close> filters and the database, take a page size \<open>lim > 0\<close> (the claim's is 2), and
  let the matching entries have pairwise distinct creation times. Then, however each
  request orders ties, the pages at offsets \<open>0\<close>, \<open>lim\<close>, \<open>2 * lim\<close>, ..., enough of them
  to cover the matching rows, concatenate to exactly the result of the list query
  without \<open>LIMIT\<close> and \<open>OFFSET\<close>: the same rows with the same multiplicities as the
  filtered join, no entry twice, in descending order of creation time. A request without
  \<open>limit\<close> and \<open>offset\<close> returns the first 50 of them.
\<close>

theorem contact_pagination:
  assumes caller: "userRow st userId = Some org"
      and lim: "0 < lim"
      and n: "length (contact_matching st org customerId type) \<le> n * lim"
      and times: "distinct (map (\<lambda>r. ch_createdAt (fst r))
                              (contact_matching st org customerId type))"
  shows "contact_pages st userId customerId type lim n ties
           = order_by_desc tie (\<lambda>r. ch_createdAt (fst r))
               (contact_matching st org customerId type)
       \<and> mset (contact_pages st userId customerId type lim n ties)
           = mset (contact_matching st org customerId type)
       \<and> distinct (map fst (contact_pages st userId customerId type lim n ties))
       \<and> sorted_wrt (\<lambda>a b. ch_createdAt (fst b) \<le> ch_createdAt (fst a))
           (contact_pages st userId customerId type lim n ties)
       \<and> (\<exists>metadata. contact_getAll st userId customerId type None None tie
             = Inr (take 50 (contact_pages st userId customerId type lim n ties), metadata))"
proof -
  let ?key = "\<lambda>r :: ContactHistoryWithRelations. ch_createdAt (fst r)"
  let ?rows = "contact_matching st org customerId type"
  let ?full = "order_by_desc tie ?key ?rows"
  have same: "\<And>k. order_by_desc (ties k) ?key ?rows = ?full"
    using times by (rule order_by_desc_distinct_keys)
  have len: "length ?full = length ?rows"
    by (simp add: order_by_desc_def)
  have "contact_pages st userId customerId type lim n ties = take (n * lim) ?full"
    by (simp add: contact_pages_def contact_page_window [OF caller] same concat_windows)
  with n len have pages: "contact_pages st userId customerId type lim n ties = ?full"
    by simp
  have "mset (map ?key ?full) = mset (map ?key ?rows)"
    by (simp add: order_by_desc_mset)
  with times have "distinct (map ?key ?full)"
    by (metis mset_eq_imp_distinct_iff)
  then have "distinct (map (ch_createdAt \<circ> fst) ?full)"
    by (simp add: comp_def)
  then have entries: "distinct (map fst ?full)"
    by (metis distinct_map map_map)
  have unpaged: "\<exists>metadata. contact_getAll st userId customerId type None None tie
             = Inr (take 50 ?full, metadata)"
    by (simp add: contact_getAll_def caller Let_def)
  show ?thesis
    unfolding pages using entries unpaged
    by (simp add: order_by_desc_mset order_by_desc_sorted)
qed


theorem contact_pagination_witness:
  "userRow sample_db ''u-alice'' = Some ''org-acme''
   \<and> map (\<lambda>r. (ch_id (fst r), ch_createdAt (fst r)))
         (contact_matching sample_db ''org-acme'' None None)
       = [(''h-1'', 40), (''h-2'', 42), (''h-3'', 41)]
   \<and> distinct (map (\<lambda>r. ch_createdAt (fst r)) (contact_matching sample_db ''org-acme'' None None))
   \<and> map (\<lambda>r. ch_id (fst r)) (contact_page sample_db ''u-alice'' None None 2 0 (request_plans 0))
       = [''h-2'', ''h-3'']
   \<and> map (\<lambda>r. ch_id (fst r)) (contact_page sample_db ''u-alice'' None None 2 2 (request_plans 1))
       = [''h-1'']
   \<and> map (\<lambda>r. ch_id (fst r)) (contact_pages sample_db ''u-alice'' None None 2 2 request_plans)
       = [''h-2'', ''h-3'', ''h-1'']
   \<and> contact_pages sample_db ''u-alice'' None None 2 2 request_plans
       = order_by_desc plan_a (\<lambda>r. ch_createdAt (fst r))
           (contact_matching sample_db ''org-acme'' None None)
   \<and> distinct (map fst (contact_pages sample_db ''u-alice'' None None 2 2 request_plans))"
proof -
  have caller: "userRow sample_db ''u-alice'' = Some ''org-acme''"
    by (simp add: userRow_def sample_defs)
  have matching: "map (\<lambda>r. (ch_id (fst r), ch_createdAt (fst r)))
                    (contact_matching sample_db ''org-acme'' None None)
                  = [(''h-1'', 40), (''h-2'', 42), (''h-3'', 41)]"
    by (simp add: contact_matching_def contact_join_def contact_filter_def contactWithRelations_def
          truthy_def sample_defs)
  have "map snd (map (\<lambda>r. (ch_id (fst r), ch_createdAt (fst r)))
                   (contact_matching sample_db ''org-acme'' None None)) = [40, 42, 41]"
    unfolding matching by simp
  then have keys: "map (\<lambda>r. ch_createdAt (fst r))
                     (contact_matching sample_db ''org-acme'' None None) = [40, 42, 41]"
    by (simp add: comp_def)
  then have times: "distinct (map (\<lambda>r. ch_createdAt (fst r))
                                (contact_matching sample_db ''org-acme'' None None))"
    by simp
  have "length (map (\<lambda>r. ch_createdAt (fst r))
                  (contact_matching sample_db ''org-acme'' None None)) = 3"
    unfolding keys by simp
  then have n: "length (contact_matching sample_db ''org-acme'' None None) \<le> 2 * 2"
    by simp
  note paged = contact_pagination [OF caller _ n times, of request_plans plan_a]
  have pages: "contact_pages sample_db ''u-alice'' None None 2 2 request_plans
       = order_by_desc plan_a (\<lambda>r. ch_createdAt (fst r))
           (contact_matching sample_db ''org-acme'' None None)"
    by (rule paged [THEN conjunct1]) simp
  have entries: "distinct (map fst (contact_pages sample_db ''u-alice'' None None 2 2 request_plans))"
    by (rule paged [THEN conjunct2, THEN conjunct2, THEN conjunct1]) simp
  have full: "\<And>tie. map (\<lambda>r. ch_id (fst r))
                (order_by_desc tie (\<lambda>r. ch_createdAt (fst r))
                   (contact_matching sample_db ''org-acme'' None None))
              = [''h-2'', ''h-3'', ''h-1'']"
  proof -
    fix tie
    have "order_by_desc tie (\<lambda>r. ch_createdAt (fst r))
            (contact_matching sample_db ''org-acme'' None None)
          = order_by_desc (\<lambda>r. 0) (\<lambda>r. ch_createdAt (fst r))
              (contact_matching sample_db ''org-acme'' None None)"
      using times by (rule order_by_desc_distinct_keys)
    then show "map (\<lambda>r. ch_id (fst r))
                (order_by_desc tie (\<lambda>r. ch_createdAt (fst r))
                   (contact_matching sample_db ''org-acme'' None None))
              = [''h-2'', ''h-3'', ''h-1'']"
      by (simp add: order_by_desc_def contact_matching_def contact_join_def contact_filter_def
            contactWithRelations_def truthy_def sample_defs)
  qed
  have p0: "map (\<lambda>r. ch_id (fst r))
              (contact_page sample_db ''u-alice'' None None 2 0 (request_plans 0))
              = [''h-2'', ''h-3'']"
    using full [of "request_plans 0"]
    by (simp add: contact_page_window [OF caller] take_map [symmetric] drop_map [symmetric])
  have p1: "map (\<lambda>r. ch_id (fst r))
              (contact_page sample_db ''u-alice'' None None 2 2 (request_plans 1))
              = [''h-1'']"
    using full [of "request_plans 1"]
    by (simp add: contact_page_window [OF caller] take_map [symmetric] drop_map [symmetric])
  have ids: "map (\<lambda>r. ch_id (fst r)) (contact_pages sample_db ''u-alice'' None None 2 2 request_plans)
       = [''h-2'', ''h-3'', ''h-1'']"
    unfolding pages by (rule full)
  show ?thesis
    by (intro conjI) (rule caller matching times p0 p1 ids pages entries)+
qed

text \<open>
  Claim C8 as stated, for every database, fails where creation times tie. In
  \<open>tied_db\<close> the three entries of John have one creation time. The request for the
  first page orders them \<open>h-1\<close>, \<open>h-2\<close>, \<open>h-3\<close> and returns \<open>h-1\<close>, \<open>h-2\<close>; the request for
  the second page orders them \<open>h-3\<close>, \<open>h-2\<close>, \<open>h-1\<close> and returns \<open>h-1\<close>. Both orders are
  descending by creation time. The concatenated pages hold \<open>h-1\<close> twice and \<open>h-3\<close> not
  at all.
\<close>

theorem contact_pagination_ties:
  "userRow tied_db ''u-alice'' = Some ''org-acme''
   \<and> map (\<lambda>r. (ch_id (fst r), ch_createdAt (fst r)))
         (contact_matching tied_db ''org-acme'' None None)
       = [(''h-1'', 40), (''h-2'', 40), (''h-3'', 40)]
   \<and> map (\<lambda>r. ch_id (fst r)) (contact_page tied_db ''u-alice'' None None 2 0 (request_plans 0))
       = [''h-1'', ''h-2'']
   \<and> map (\<lambda>r. ch_id (fst r)) (contact_page tied_db ''u-alice'' None None 2 2 (request_plans 1))
       = [''h-1'']
   \<and> map (\<lambda>r. ch_id (fst r)) (contact_pages tied_db ''u-alice'' None None 2 2 request_plans)
       = [''h-1'', ''h-2'', ''h-1'']
   \<and> \<not> distinct (map (\<lambda>r. ch_id (fst r))
                      (contact_pages tied_db ''u-alice'' None None 2 2 request_plans))
   \<and> mset (contact_pages tied_db ''u-alice'' None None 2 2 request_plans)
       \<noteq> mset (contact_matching tied_db ''org-acme'' None None)"
proof -
  have caller: "userRow tied_db ''u-alice'' = Some ''org-acme''"
    by (simp add: userRow_def tied_db_def sample_defs)
  have rows: "contact_matching tied_db ''org-acme'' None None
     = [contactWithRelations (entry ''h-1'' ''c-john'' CALL 40 ''u-alice'') john alice,
        contactWithRelations (entry ''h-2'' ''c-john'' EMAIL 40 ''u-alice'') john alice,
        contactWithRelations (entry ''h-3'' ''c-john'' NOTE 40 ''u-alice'') john alice]"
    by (simp add: contact_matching_def contact_join_def contact_filter_def
          truthy_def tied_db_def sample_defs)
  have matching: "map (\<lambda>r. (ch_id (fst r), ch_createdAt (fst r)))
                    (contact_matching tied_db ''org-acme'' None None)
                  = [(''h-1'', 40), (''h-2'', 40), (''h-3'', 40)]"
    by (simp add: rows contactWithRelations_def entry_def)
  have p0: "map (\<lambda>r. ch_id (fst r))
              (contact_page tied_db ''u-alice'' None None 2 0 (request_plans 0))
            = [''h-1'', ''h-2'']"
    by (simp add: contact_page_window [OF caller] rows order_by_desc_def contactWithRelations_def
          entry_def request_plans_def plan_a_def plan_b_def)
  have p1: "map (\<lambda>r. ch_id (fst r))
              (contact_page tied_db ''u-alice'' None None 2 2 (request_plans 1))
            = [''h-1'']"
    by (simp add: contact_page_window [OF caller] rows order_by_desc_def contactWithRelations_def
          entry_def request_plans_def plan_a_def plan_b_def)
  have two: "[0..<2] = [0, Suc 0]"
    by (simp add: numeral_2_eq_2)
  have "contact_pages tied_db ''u-alice'' None None 2 2 request_plans
          = contact_page tied_db ''u-alice'' None None 2 0 (request_plans 0)
            @ contact_page tied_db ''u-alice'' None None 2 2 (request_plans 1)"
    by (simp add: contact_pages_def two)
  then have ids: "map (\<lambda>r. ch_id (fst r))
                    (contact_pages tied_db ''u-alice'' None None 2 2 request_plans)
       = [''h-1'', ''h-2'', ''h-1'']"
    by (simp only: map_append p0 p1 append.simps)
  have dup: "\<not> distinct (map (\<lambda>r. ch_id (fst r))
                            (contact_pages tied_db ''u-alice'' None None 2 2 request_plans))"
    unfolding ids by simp
  have differ: "mset (contact_pages tied_db ''u-alice'' None None 2 2 request_plans)
       \<noteq> mset (contact_matching tied_db ''org-acme'' None None)"
  proof
    assume "mset (contact_pages tied_db ''u-alice'' None None 2 2 request_plans)
       = mset (contact_matching tied_db ''org-acme'' None None)"
    then have sets: "set (contact_pages tied_db ''u-alice'' None None 2 2 request_plans)
       = set (contact_matching tied_db ''org-acme'' None None)"
      by (rule mset_eq_setD)
    have "''h-3'' \<in> (\<lambda>r. ch_id (fst r)) ` set (contact_matching tied_db ''org-acme'' None None)"
      by (simp add: rows contactWithRelations_def entry_def)
    then have "''h-3'' \<in> set (map (\<lambda>r. ch_id (fst r))
                         (contact_pages tied_db ''u-alice'' None None 2 2 request_plans))"
      by (simp only: sets set_map)
    then show False
      unfolding ids by simp
  qed
  show ?thesis
    by (intro conjI) (rule caller matching p0 p1 ids dup differ)+
qed

end
